theory Spec2Isabelle
  imports Main "HOL-Library.Word"
begin

section \<open>Python values and exceptions shared by the models\<close>

text \<open>
  The exceptions that the modelled functions of coscout raise or catch. A function that
  can raise returns \<open>py_error + 'a\<close>, with \<open>Inl\<close> for the exception.
\<close>

datatype py_error =
    ValidationError
  | ValueError
  | TypeError
  | AttributeError
  | ZeroDivisionError
  | FileNotFoundError
  | FileExistsError
  | AssertionError
  | ConnectionError
  | EndpointConnectionError
  | OverflowError
  | UnicodeDecodeError
  | JSONDecodeError
  | OSError
  | KeyError
  | CosException
  | OtherError

text \<open>
  Event codes and configuration versions are dynamically typed in the source: the tests
  pass integers (\<open>hit(200)\<close>), the record state carries strings, and an absent code is
  \<open>None\<close>. \<open>truthy\<close> is Python's truth value (\<open>not code\<close> is its negation) and
  \<open>py_str\<close> is \<open>str(code)\<close>.
\<close>

datatype py_val = PInt int | PStr string | PNone

fun truthy :: "py_val \<Rightarrow> bool" where
  "truthy (PInt n) = (n \<noteq> 0)"
| "truthy (PStr s) = (s \<noteq> [])"
| "truthy PNone = False"

definition digit_char :: "nat \<Rightarrow> char" where
  "digit_char d = char_of (48 + d)"

function str_nat :: "nat \<Rightarrow> string" where
  "str_nat n = (if n < 10 then [digit_char n] else str_nat (n div 10) @ [digit_char (n mod 10)])"
  by pat_completeness auto
termination
  by (relation "measure (\<lambda>n. n)") auto

declare str_nat.simps [simp del]

definition str_int :: "int \<Rightarrow> string" where
  "str_int i = (if i < 0 then CHR ''-'' # str_nat (nat (- i)) else str_nat (nat i))"

fun py_str :: "py_val \<Rightarrow> string" where
  "py_str (PInt n) = str_int n"
| "py_str (PStr s) = s"
| "py_str PNone = ''None''"

section \<open>Record cache (cos/core/models.py)\<close>

text \<open>
  \<open>Path(v).name\<close>: the last component of a path, where empty components and single dots
  are dropped by \<open>pathlib\<close> when the path is built.
\<close>

fun split_on :: "char \<Rightarrow> string \<Rightarrow> string list" where
  "split_on c [] = [[]]"
| "split_on c (x # xs) =
     (if x = c then [] # split_on c xs
      else (case split_on c xs of [] \<Rightarrow> [[x]] | w # ws \<Rightarrow> (x # w) # ws))"

definition path_parts :: "string \<Rightarrow> string list" where
  "path_parts p = filter (\<lambda>w. w \<noteq> [] \<and> w \<noteq> ''.'') (split_on CHR ''/'' p)"

definition path_name :: "string \<Rightarrow> string" where
  "path_name p = (case rev (path_parts p) of [] \<Rightarrow> [] | w # _ \<Rightarrow> w)"

text \<open>
  \<open>str(Path(v))\<close>: the root (\<open>/\<close>, or \<open>//\<close> for exactly two leading slashes) followed
  by the components joined with single slashes; the empty path prints as a dot.
\<close>

fun join_with :: "string \<Rightarrow> string list \<Rightarrow> string" where
  "join_with sep [] = []"
| "join_with sep [w] = w"
| "join_with sep (w # ws) = w @ sep @ join_with sep ws"

definition path_root :: "string \<Rightarrow> string" where
  "path_root p =
     (case p of
        a # b # c # _ \<Rightarrow>
          (if a = CHR ''/'' \<and> b = CHR ''/'' \<and> c \<noteq> CHR ''/'' then ''//''
           else if a = CHR ''/'' then ''/'' else [])
      | [a, b] \<Rightarrow> (if a = CHR ''/'' \<and> b = CHR ''/'' then ''//'' else if a = CHR ''/'' then ''/'' else [])
      | [a] \<Rightarrow> (if a = CHR ''/'' then ''/'' else [])
      | [] \<Rightarrow> [])"

definition path_str :: "string \<Rightarrow> string" where
  "path_str p =
     (let s = path_root p @ join_with ''/'' (path_parts p) in if s = [] then ''.'' else s)"

record FileInfo =
  filepath :: string
  filename :: "string option"
  size_f :: "int option"
  sha256 :: "string option"

text \<open>
  \<open>FileInfo(filepath=f)\<close>: the validator \<open>set_filename\<close> fills a missing filename with
  the path's name (a \<open>Path\<close> object is always true).
\<close>

definition FileInfo_init :: "string \<Rightarrow> string option \<Rightarrow> FileInfo" where
  "FileInfo_init p fn =
     \<lparr>filepath = p,
      filename = (case fn of None \<Rightarrow> Some (path_name p) | Some n \<Rightarrow> Some n),
      size_f = None, sha256 = None\<rparr>"

text \<open>A moment of a record; the optional task of a moment carries an assignee.\<close>

record Moment =
  m_title :: string
  m_description :: string
  m_timestamp :: int
  m_duration :: int
  m_metadata :: "(string \<times> string) list"
  m_assignee :: "string option"

record RecordCache =
  uploaded :: bool
  skipped :: bool
  event_code :: py_val
  project_name :: "string option"
  timestamp :: int
  labels :: "string list"
  record_f :: "string \<rightharpoonup> string"
  moments :: "Moment list"
  task :: "string \<rightharpoonup> string"
  files :: "string list"
  file_infos :: "FileInfo list"
  paths_to_delete :: "string list"

text \<open>
  The keyword arguments of \<open>RecordCache(**data)\<close> that the tests and the mods pass.
  \<open>timestamp\<close> has no default, so pydantic raises \<open>ValidationError\<close> without it; every
  other field takes its class default.
\<close>

record RecordCache_data =
  d_event_code :: py_val
  d_timestamp :: "int option"
  d_skipped :: bool
  d_files :: "string list"
  d_file_infos :: "FileInfo list"

definition RecordCache_init :: "RecordCache_data \<Rightarrow> py_error + RecordCache" where
  "RecordCache_init d =
     (case d_timestamp d of
        None \<Rightarrow> Inl ValidationError
      | Some ts \<Rightarrow>
          Inr \<lparr>uploaded = False, skipped = d_skipped d, event_code = d_event_code d,
               project_name = None, timestamp = ts, labels = [],
               record_f = Map.empty, moments = [], task = Map.empty,
               files =
                 (if d_files d = [] then map (\<lambda>f. path_str (filepath f)) (d_file_infos d)
                  else d_files d),
               file_infos =
                 (if d_files d = [] then d_file_infos d
                  else if d_file_infos d = [] then map (\<lambda>f. FileInfo_init f None) (d_files d)
                  else d_file_infos d),
               paths_to_delete = []\<rparr>)"

section \<open>Event code limiter (cos/collector/codes.py)\<close>

record EventCodeConfig =
  enabled :: bool
  whitelist :: "string \<rightharpoonup> int"
  reset_interval_in_secs :: int
  code_json_url :: string

text \<open>
  The JSON object of the limiter's state file. \<open>_create_or_reset_state\<close> writes it with
  the key \<open>last_reset_timestamp\<close> only; \<open>hit\<close> adds \<open>counters\<close>. Both keys are read
  with a default, so both are optional here.
\<close>

record CodeLimitState =
  s_last_reset_timestamp :: "int option"
  s_counters :: "(string \<rightharpoonup> int) option"

text \<open>
  The manager: its configuration, the attribute \<open>last_reset_timestamp\<close> (0 in a new
  process) and the content of the file at \<open>_state_path\<close> (\<open>None\<close> when the file does
  not exist).
\<close>

record EventCodeManager =
  conf :: EventCodeConfig
  last_reset_timestamp :: int
  state_file :: "CodeLimitState option"

text \<open>
  \<open>__init__\<close>: the limiter stays enabled only with a code table URL. A new process
  starts from the class attribute \<open>last_reset_timestamp = 0\<close> and whatever state file
  the previous process left.
\<close>

definition EventCodeManager_init :: "EventCodeConfig \<Rightarrow> CodeLimitState option \<Rightarrow> EventCodeManager" where
  "EventCodeManager_init c f =
     \<lparr>conf = c\<lparr>enabled := (enabled c \<and> code_json_url c \<noteq> [])\<rparr>,
      last_reset_timestamp = 0,
      state_file = f\<rparr>"

text \<open>
  Lines 117-119 of \<open>_create_or_reset_state\<close>: with the attribute still 0 and a state
  file present, the attribute is loaded from the file (default 0).
\<close>

definition loaded_timestamp :: "EventCodeManager \<Rightarrow> int" where
  "loaded_timestamp m =
     (case state_file m of
        Some st \<Rightarrow>
          (if last_reset_timestamp m = 0
           then (case s_last_reset_timestamp st of None \<Rightarrow> 0 | Some v \<Rightarrow> v)
           else last_reset_timestamp m)
      | None \<Rightarrow> last_reset_timestamp m)"

text \<open>Line 123: the reset condition.\<close>

definition reset_due :: "int \<Rightarrow> EventCodeManager \<Rightarrow> bool" where
  "reset_due now m =
     (now > loaded_timestamp m + reset_interval_in_secs (conf m) \<or> state_file m = None)"

text \<open>
  \<open>_create_or_reset_state\<close> at the time \<open>now = int(time.time())\<close>. A reset advances the
  attribute by \<open>n * reset_interval_in_secs\<close> and replaces the state file by
  \<open>{"last_reset_timestamp": now}\<close>, which drops the counters. Python's \<open>//\<close> is floor
  division, as \<open>div\<close> on \<open>int\<close>, and raises on a zero divisor.
\<close>

definition create_or_reset_state :: "int \<Rightarrow> EventCodeManager \<Rightarrow> py_error + EventCodeManager" where
  "create_or_reset_state now m =
     (let last = loaded_timestamp m;
          interval = reset_interval_in_secs (conf m)
      in if reset_due now m then
           (if interval = 0 then Inl ZeroDivisionError
            else
              (let n = (now - last) div interval
               in Inr (m\<lparr>last_reset_timestamp := last + n * interval,
                         state_file := Some \<lparr>s_last_reset_timestamp = Some now,
                                              s_counters = None\<rparr>\<rparr>)))
         else Inr (m\<lparr>last_reset_timestamp := last\<rparr>))"

definition get_counter :: "CodeLimitState \<Rightarrow> string \<Rightarrow> int" where
  "get_counter st k =
     (case s_counters st of
        None \<Rightarrow> 0
      | Some cs \<Rightarrow> (case cs k of None \<Rightarrow> 0 | Some v \<Rightarrow> v))"

definition hit :: "int \<Rightarrow> py_val \<Rightarrow> EventCodeManager \<Rightarrow> py_error + EventCodeManager" where
  "hit now code m =
     (if \<not> enabled (conf m) then Inr m
      else if \<not> truthy code then Inr m
      else
        (case create_or_reset_state now m of
           Inl e \<Rightarrow> Inl e
         | Inr m1 \<Rightarrow>
             (case state_file m1 of
                None \<Rightarrow> Inl FileNotFoundError
              | Some st \<Rightarrow>
                  (let k = py_str code;
                       counters = (case s_counters st of None \<Rightarrow> Map.empty | Some cs \<Rightarrow> cs)
                   in Inr (m1\<lparr>state_file :=
                             Some (st\<lparr>s_counters := Some (counters(k \<mapsto> get_counter st k + 1))\<rparr>)\<rparr>)))))"

definition is_over_limit :: "int \<Rightarrow> py_val \<Rightarrow> EventCodeManager \<Rightarrow> py_error + (bool \<times> EventCodeManager)" where
  "is_over_limit now code m =
     (if \<not> enabled (conf m) then Inr (False, m)
      else
        (case create_or_reset_state now m of
           Inl e \<Rightarrow> Inl e
         | Inr m1 \<Rightarrow>
             (if \<not> truthy code then Inr (True, m1)
              else
                (case whitelist (conf m1) (py_str code) of
                   None \<Rightarrow> Inr (True, m1)
                 | Some limit \<Rightarrow>
                     (if limit = - 1 then Inr (False, m1)
                      else
                        (case state_file m1 of
                           None \<Rightarrow> Inl FileNotFoundError
                         | Some st \<Rightarrow> Inr (get_counter st (py_str code) \<ge> limit, m1)))))))"

text \<open>A sequence of \<open>hit\<close> calls, each at its own time; an exception ends the sequence.\<close>

fun hit_all :: "(int \<times> py_val) list \<Rightarrow> EventCodeManager \<Rightarrow> py_error + EventCodeManager" where
  "hit_all [] m = Inr m"
| "hit_all ((t, c) # hs) m = (case hit t c m of Inl e \<Rightarrow> Inl e | Inr m' \<Rightarrow> hit_all hs m')"

text \<open>The number of calls in a sequence that count for the key \<open>k\<close>.\<close>

definition hit_count :: "string \<Rightarrow> (int \<times> py_val) list \<Rightarrow> int" where
  "hit_count k hs = int (length (filter (\<lambda>(t, c). truthy c \<and> py_str c = k) hs))"

definition counter_of :: "EventCodeManager \<Rightarrow> string \<Rightarrow> int" where
  "counter_of m k = (case state_file m of None \<Rightarrow> 0 | Some st \<Rightarrow> get_counter st k)"

text \<open>
  What a caller reads from \<open>is_over_limit(c)\<close> at the time \<open>now\<close> after a sequence of
  \<open>hit\<close> calls.
\<close>

definition limited_after :: "(int \<times> py_val) list \<Rightarrow> int \<Rightarrow> py_val \<Rightarrow> EventCodeManager \<Rightarrow> py_error + bool" where
  "limited_after hs now c m =
     (case hit_all hs m of
        Inl e \<Rightarrow> Inl e
      | Inr m1 \<Rightarrow> map_sum id fst (is_over_limit now c m1))"

text \<open>
  The configuration of the limiter's test fixture (tests/test_codes.py): whitelist
  \<open>{"200": 2, "404": -1, "500": 2}\<close>, the default interval of one day.
\<close>

definition S4_conf :: EventCodeConfig where
  "S4_conf = \<lparr>enabled = True,
      whitelist = [''200'' \<mapsto> 2, ''404'' \<mapsto> - 1, ''500'' \<mapsto> 2],
      reset_interval_in_secs = 86400, code_json_url = ''code.json''\<rparr>"

text \<open>An enabled limiter with the default interval and no whitelist entry.\<close>

definition day_conf :: EventCodeConfig where
  "day_conf = \<lparr>enabled = True, whitelist = Map.empty,
      reset_interval_in_secs = 86400, code_json_url = ''code.json''\<rparr>"

section \<open>Remote configuration cache (cos/collector/remote_config.py)\<close>

text \<open>
  A configuration is a JSON object. \<open>read_config\<close> writes the cache file as
  \<open>{"version": v, "value": c}\<close> and reads both keys with a default.

  The cache file is given by what lines 47-49 make of it: it does not exist; or opening,
  reading or \<open>json.loads\<close> raises (\<open>OSError\<close>, \<open>UnicodeDecodeError\<close>, and
  \<open>JSONDecodeError\<close> for an empty text or one cut short); or \<open>json.loads\<close> returns a
  value, which is an object or something else (an array, a string, a number, \<open>true\<close>,
  \<open>false\<close>, \<open>null\<close>) that has no \<open>get\<close>.
\<close>

type_synonym config = "(string \<times> string) list"

record cache_content =
  c_version :: "py_val option"
  c_value :: "config option"

datatype loaded = JObject cache_content | JOther

datatype cache_file = NoFile | Raises py_error | Loads loaded

text \<open>
  The two abstract methods \<open>get_config_version\<close> and \<open>get_config\<close> talk to the server:
  each either raises or returns. What \<open>get_config\<close> returns is a configuration or an
  object that \<open>json.dumps\<close> rejects with \<open>TypeError\<close>. \<open>get_cache_key\<close> returns a stored
  string in every implementation (openers.py:51, codes.py:46, remote_rule.py:30) and is
  not modelled.
\<close>

datatype fetched = Fetched config | Unserialisable

text \<open>
  Lines 69-70: \<open>open(..., "w")\<close> raises and the file is as before; or the file is opened,
  which empties it, and writing raises, which leaves an empty or cut text; or the text
  is written.
\<close>

datatype write_result = Written | OpenRaises py_error | WriteRaises py_error

datatype remote_call = GetConfigVersion | GetConfig

record RemoteConfig =
  enable_cache :: bool
  mkdir :: "py_error option"
  cache_file :: cache_file
  get_config_version :: "py_error + py_val"
  get_config :: "py_error + fetched"
  cache_write :: write_result

text \<open>Lines 45-49, with the cache enabled: \<open>content\<close>, or the exception of reading it.\<close>

definition load_cache :: "RemoteConfig \<Rightarrow> py_error + loaded" where
  "load_cache rc =
     (case cache_file rc of
        NoFile \<Rightarrow> Inr (JObject \<lparr>c_version = None, c_value = None\<rparr>)
      | Raises e \<Rightarrow> Inl e
      | Loads content \<Rightarrow> Inr content)"

text \<open>\<open>content.get("value", {})\<close> and \<open>content.get("version", "")\<close>.\<close>

definition get_value :: "loaded \<Rightarrow> py_error + config" where
  "get_value content =
     (case content of
        JOther \<Rightarrow> Inl AttributeError
      | JObject c \<Rightarrow> Inr (case c_value c of None \<Rightarrow> [] | Some v \<Rightarrow> v))"

definition get_version :: "loaded \<Rightarrow> py_error + py_val" where
  "get_version content =
     (case content of
        JOther \<Rightarrow> Inl AttributeError
      | JObject c \<Rightarrow> Inr (case c_version c of None \<Rightarrow> PStr [] | Some v \<Rightarrow> v))"

text \<open>
  The result of \<open>read_config\<close>: what it returns or raises, the remote calls made, in
  order, and the cache file afterwards.
\<close>

type_synonym read_result = "(py_error + config) \<times> remote_call list \<times> cache_file"

text \<open>
  Lines 60-71, with \<open>content\<close> as it is at line 60. An exception of \<open>get_config\<close> returns
  the value of \<open>content\<close>. Otherwise the debug message serialises the new content (line
  66, evaluated whatever the log level), the cache is written when it is enabled and the
  content is not empty, and the content is returned. Lines 66 and 69-70 are outside the
  \<open>try\<close>.
\<close>

definition fetch_config ::
  "RemoteConfig \<Rightarrow> loaded \<Rightarrow> py_val \<Rightarrow> remote_call list \<Rightarrow> read_result" where
  "fetch_config rc content current_version calls =
     (case get_config rc of
        Inl e \<Rightarrow> (get_value content, calls @ [GetConfig], cache_file rc)
      | Inr Unserialisable \<Rightarrow> (Inl TypeError, calls @ [GetConfig], cache_file rc)
      | Inr (Fetched new_content) \<Rightarrow>
          (if enable_cache rc \<and> new_content \<noteq> []
           then
             (case cache_write rc of
                OpenRaises e \<Rightarrow> (Inl e, calls @ [GetConfig], cache_file rc)
              | WriteRaises e \<Rightarrow> (Inl e, calls @ [GetConfig], Raises JSONDecodeError)
              | Written \<Rightarrow>
                  (Inr new_content, calls @ [GetConfig],
                   Loads (JObject \<lparr>c_version = Some current_version, c_value = Some new_content\<rparr>)))
           else (Inr new_content, calls @ [GetConfig], cache_file rc)))"

text \<open>
  \<open>read_config\<close>, lines 40-71. \<open>mkdir\<close> (line 43) and the reading of the cache (lines
  47-49) come before the first \<open>try\<close>; \<open>content.get\<close> at line 54 is inside the handler
  and at line 56 after it, so its \<open>AttributeError\<close> leaves the function in both places.
\<close>

definition read_config :: "RemoteConfig \<Rightarrow> read_result" where
  "read_config rc =
     (case mkdir rc of
        Some e \<Rightarrow> (Inl e, [], cache_file rc)
      | None \<Rightarrow>
          (if enable_cache rc then
             (case load_cache rc of
                Inl e \<Rightarrow> (Inl e, [], cache_file rc)
              | Inr content \<Rightarrow>
                  (case get_config_version rc of
                     Inl e \<Rightarrow> (get_value content, [GetConfigVersion], cache_file rc)
                   | Inr current_version \<Rightarrow>
                       (case get_version content of
                          Inl e \<Rightarrow> (Inl e, [GetConfigVersion], cache_file rc)
                        | Inr cache_version \<Rightarrow>
                            (if py_str cache_version = py_str current_version
                             then (get_value content, [GetConfigVersion], cache_file rc)
                             else fetch_config rc content current_version [GetConfigVersion]))))
           else fetch_config rc (JObject \<lparr>c_version = None, c_value = None\<rparr>) (PStr ''-1'') []))"

text \<open>
  The local side works: the cache directory can be made and, with the cache enabled, the
  cache file is absent or parses as an object. \<open>cached_value\<close> and \<open>cached_version\<close> are
  then what \<open>content.get\<close> gives.
\<close>

definition cache_usable :: "RemoteConfig \<Rightarrow> bool" where
  "cache_usable rc =
     (mkdir rc = None
      \<and> (if enable_cache rc
         then (case cache_file rc of NoFile \<Rightarrow> True | Loads (JObject c) \<Rightarrow> True | _ \<Rightarrow> False)
         else True))"

definition cached_content :: "RemoteConfig \<Rightarrow> cache_content" where
  "cached_content rc =
     (case cache_file rc of
        Loads (JObject c) \<Rightarrow> (if enable_cache rc then c else \<lparr>c_version = None, c_value = None\<rparr>)
      | _ \<Rightarrow> \<lparr>c_version = None, c_value = None\<rparr>)"

definition cached_value :: "RemoteConfig \<Rightarrow> config" where
  "cached_value rc = (case c_value (cached_content rc) of None \<Rightarrow> [] | Some v \<Rightarrow> v)"

definition cached_version :: "RemoteConfig \<Rightarrow> py_val" where
  "cached_version rc = (case c_version (cached_content rc) of None \<Rightarrow> PStr [] | Some v \<Rightarrow> v)"

text \<open>
  The new configuration can be stored: it serialises and the cache file can be written.
\<close>

definition store_works :: "RemoteConfig \<Rightarrow> bool" where
  "store_works rc = (get_config rc \<noteq> Inr Unserialisable \<and> cache_write rc = Written)"

text \<open>
  A cache file of version 3 holding one key; a device whose server is unreachable and
  whose cache file was cut short; and a device whose disk fills up while the cache is
  written.
\<close>

definition cache_v3 :: cache_content where
  "cache_v3 = \<lparr>c_version = Some (PInt 3), c_value = Some [(''rules'', ''r1'')]\<rparr>"

definition cut_cache :: RemoteConfig where
  "cut_cache =
     \<lparr>enable_cache = True, mkdir = None, cache_file = Raises JSONDecodeError,
      get_config_version = Inl ConnectionError, get_config = Inl ConnectionError,
      cache_write = Written\<rparr>"

definition full_disk :: RemoteConfig where
  "full_disk =
     \<lparr>enable_cache = True, mkdir = None, cache_file = Loads (JObject cache_v3),
      get_config_version = Inr (PInt 4), get_config = Inr (Fetched [(''rules'', ''r2'')]),
      cache_write = WriteRaises OSError\<rparr>"
section \<open>Network usage meter (cos/core/request_hook.py)\<close>

record NetworkUsage =
  download_bytes :: int
  upload_bytes :: int

definition increase_download_bytes :: "int \<Rightarrow> NetworkUsage \<Rightarrow> NetworkUsage" where
  "increase_download_bytes b nu = nu\<lparr>download_bytes := download_bytes nu + b\<rparr>"

definition increase_upload_bytes :: "int \<Rightarrow> NetworkUsage \<Rightarrow> NetworkUsage" where
  "increase_upload_bytes b nu = nu\<lparr>upload_bytes := upload_bytes nu + b\<rparr>"

section \<open>Multipart uploader (cos/utils/uploader.py)\<close>

type_synonym byte = "8 word"

record part =
  PartNumber :: int
  ETag :: string

text \<open>The JSON object of the multipart info file (the manifest).\<close>

record multipart_info =
  multipart_id :: string
  current_part_number :: int
  file_f :: string
  total_bytes :: int
  uploaded_bytes :: int
  part_size :: int
  parts :: "part list"

text \<open>
  The object store, as far as \<open>upload\<close> sees it: the id a new multipart upload gets,
  what \<open>upload_part\<close> does for a part number and a body (it raises, or returns the ETag
  and the \<open>content-length\<close> header of the response), what \<open>complete_multipart_upload\<close>
  does, and \<open>len(json.dumps(parts))\<close>, which \<open>_complete\<close> feeds to the meter.
\<close>

record s3_client =
  create_multipart_upload :: string
  upload_part :: "int \<Rightarrow> byte list \<Rightarrow> py_error + (string \<times> int)"
  complete_multipart_upload :: "part list \<Rightarrow> py_error + int"
  dumps_len :: "part list \<Rightarrow> int"

text \<open>
  The uploader and what it touches: the file to upload (\<open>None\<close> when it does not exist),
  the info file beside it, the process-wide meter, and the requests that reached the
  object store: the \<open>upload_part\<close> calls (part number and body) and the
  \<open>complete_multipart_upload\<close> calls, in order.
\<close>

record uploader =
  file_path :: string
  file_content :: "byte list option"
  part_size_bytes :: int
  info_file :: "multipart_info option"
  network_usage :: NetworkUsage
  sent_parts :: "(int \<times> byte list) list"
  completed :: "part list list"

definition PART_MINIMUM :: int where
  "PART_MINIMUM = 5000000"

text \<open>\<open>__init__\<close>: the assertion on the part size; the default part size is 6 MB.\<close>

definition S3MultipartUploader_init ::
  "string \<Rightarrow> byte list option \<Rightarrow> int \<Rightarrow> multipart_info option \<Rightarrow> NetworkUsage \<Rightarrow> py_error + uploader" where
  "S3MultipartUploader_init path content psize info nu =
     (if psize \<ge> PART_MINIMUM
      then Inr \<lparr>file_path = path, file_content = content, part_size_bytes = psize,
                info_file = info, network_usage = nu, sent_parts = [], completed = []\<rparr>
      else Inl AssertionError)"

text \<open>\<open>_create\<close>: a new info file, unless one exists.\<close>

definition create_info :: "s3_client \<Rightarrow> byte list \<Rightarrow> uploader \<Rightarrow> py_error + uploader" where
  "create_info s3 content u =
     (case info_file u of
        Some i \<Rightarrow> Inl FileExistsError
      | None \<Rightarrow>
          Inr (u\<lparr>info_file :=
                 Some \<lparr>multipart_id = create_multipart_upload s3,
                       current_part_number = 1,
                       file_f = file_path u,
                       total_bytes = int (length content),
                       uploaded_bytes = 0,
                       part_size = part_size_bytes u,
                       parts = []\<rparr>\<rparr>))"

text \<open>
  \<open>botocore\<close>'s \<open>EndpointConnectionError\<close> is caught and raised again as
  \<open>ConnectionError\<close>; any other exception passes through.
\<close>

definition reraise :: "py_error \<Rightarrow> py_error" where
  "reraise e = (if e = EndpointConnectionError then ConnectionError else e)"

text \<open>
  \<open>_complete\<close>: the completing request, then the meter (the request is counted with
  \<open>len(json.dumps(parts))\<close>).
\<close>

definition complete :: "s3_client \<Rightarrow> part list \<Rightarrow> uploader \<Rightarrow> py_error option \<times> uploader" where
  "complete s3 ps u =
     (case complete_multipart_upload s3 ps of
        Inl e \<Rightarrow> (Some (reraise e), u)
      | Inr res_length \<Rightarrow>
          (None,
           u\<lparr>network_usage :=
                increase_download_bytes res_length
                  (increase_upload_bytes (dumps_len s3 ps) (network_usage u)),
              completed := completed u @ [ps]\<rparr>))"

text \<open>
  The local variables of the loop of \<open>upload\<close>: the read position in the file, the
  loaded manifest \<open>multipart_info\<close> (whose \<open>parts\<close> list the local \<open>parts\<close> aliases),
  \<open>uploaded_bytes\<close> and the loop variable \<open>curr_part_num\<close>.
\<close>

record upload_locals =
  pos :: nat
  info :: multipart_info
  l_uploaded_bytes :: int
  curr_part_num :: int

text \<open>
  Lines 138-176, over the part numbers still in the range. \<open>stop n\<close> says whether another
  thread has set the stop event when the loop checks it before part \<open>n\<close>. Line 163 feeds
  the meter with \<open>uploaded_bytes\<close>, the running total.
\<close>

fun upload_loop ::
  "s3_client \<Rightarrow> (int \<Rightarrow> bool) \<Rightarrow> byte list \<Rightarrow> int list \<Rightarrow> upload_locals \<Rightarrow> uploader
     \<Rightarrow> py_error option \<times> upload_locals \<times> uploader" where
  "upload_loop s3 stop content [] l u = (None, l, u)"
| "upload_loop s3 stop content (n # ns) l u =
     (if stop n then (None, l\<lparr>curr_part_num := n\<rparr>, u)
      else
        (let data = take (nat (part_size_bytes u)) (drop (pos l) content)
         in if data = [] then (None, l\<lparr>curr_part_num := n\<rparr>, u)
            else
              (case upload_part s3 n data of
                 Inl e \<Rightarrow>
                   (Some (reraise e), l\<lparr>curr_part_num := n\<rparr>,
                    u\<lparr>sent_parts := sent_parts u @ [(n, data)]\<rparr>)
               | Inr (etag, res_length) \<Rightarrow>
                   (let ps = parts (info l) @ [\<lparr>PartNumber = n, ETag = etag\<rparr>];
                        ub = l_uploaded_bytes l + int (length data);
                        nu = increase_download_bytes res_length
                               (increase_upload_bytes ub (network_usage u));
                        i = (info l)\<lparr>current_part_number := n + 1,
                                      uploaded_bytes := ub, parts := ps\<rparr>
                    in upload_loop s3 stop content ns
                         \<lparr>pos = pos l + length data, info = i,
                          l_uploaded_bytes = ub, curr_part_num = n\<rparr>
                         (u\<lparr>network_usage := nu, info_file := Some i,
                            sent_parts := sent_parts u @ [(n, data)]\<rparr>)))))"

text \<open>
  \<open>upload\<close>. The result is the exception that ended it, if any, and the state it left.
\<close>

definition upload :: "s3_client \<Rightarrow> (int \<Rightarrow> bool) \<Rightarrow> uploader \<Rightarrow> py_error option \<times> uploader" where
  "upload s3 stop u =
     (case file_content u of
        None \<Rightarrow> (None, u)
      | Some content \<Rightarrow>
          (case (case info_file u of None \<Rightarrow> create_info s3 content u | Some i \<Rightarrow> Inr u) of
             Inl e \<Rightarrow> (Some e, u)
           | Inr u1 \<Rightarrow>
               (case info_file u1 of
                  None \<Rightarrow> (Some FileNotFoundError, u1)
                | Some i \<Rightarrow>
                    (let starting_part_num = current_part_number i;
                         total_parts = (total_bytes i + part_size_bytes u1 - 1) div part_size_bytes u1;
                         start_pos = (if starting_part_num > 1
                                      then nat ((starting_part_num - 1) * part_size_bytes u1)
                                      else 0)
                     in (case upload_loop s3 stop content [starting_part_num..total_parts]
                                \<lparr>pos = start_pos, info = i,
                                 l_uploaded_bytes = uploaded_bytes i, curr_part_num = 1\<rparr> u1 of
                           (Some e, l, u2) \<Rightarrow> (Some e, u2)
                         | (None, l, u2) \<Rightarrow>
                             (if curr_part_num l = total_parts
                              then complete s3 (parts (info l)) u2
                              else (None, u2)))))))"

text \<open>
  An object store that answers every request, except that \<open>upload_part\<close> loses the
  connection for the part numbers in \<open>failing\<close>; \<open>etag\<close> gives the ETag of each part.
\<close>

definition s3_with :: "(int \<Rightarrow> string) \<Rightarrow> int set \<Rightarrow> s3_client" where
  "s3_with etag failing =
     \<lparr>create_multipart_upload = ''upload-1'',
      upload_part = (\<lambda>n d. if n \<in> failing then Inl EndpointConnectionError else Inr (etag n, 0)),
      complete_multipart_upload = (\<lambda>ps. Inr 0),
      dumps_len = (\<lambda>ps. 0)\<rparr>"

text \<open>A new uploader for a file of the given content, with no info file and a meter at zero.\<close>

definition new_uploader :: "byte list \<Rightarrow> int \<Rightarrow> uploader" where
  "new_uploader content psize =
     \<lparr>file_path = ''/data/a.bag'', file_content = Some content, part_size_bytes = psize,
      info_file = None, network_usage = \<lparr>download_bytes = 0, upload_bytes = 0\<rparr>,
      sent_parts = [], completed = []\<rparr>"

text \<open>The bytes of part \<open>n\<close> of a file cut into parts of \<open>psize\<close> bytes.\<close>

definition part_bytes :: "byte list \<Rightarrow> int \<Rightarrow> int \<Rightarrow> byte list" where
  "part_bytes content psize n = take (nat psize) (drop (nat ((n - 1) * psize)) content)"

section \<open>Log timestamps (cos/mods/common/default/log_utils.py)\<close>

subsection \<open>The regular expressions of the module\<close>

text \<open>
  The patterns of \<open>hint_options\<close> and \<open>ts_schema\<close>, and the patterns that
  \<open>datetime.strptime\<close> builds from a format, are sequences of two kinds of elements: a
  choice between alternatives of fixed length, tried in order, and a greedy repetition of
  one character class with a lower and an optional upper bound. Text is ASCII here, one
  \<open>char\<close> per character.
\<close>

datatype cls = OneOf string | NoneOf string

fun cls_matches :: "cls \<Rightarrow> char \<Rightarrow> bool" where
  "cls_matches (OneOf cs) c = (c \<in> set cs)"
| "cls_matches (NoneOf cs) c = (c \<notin> set cs)"

definition lower_letters :: string where
  "lower_letters = ''abcdefghijklmnopqrstuvwxyz''"

definition upper_letters :: string where
  "upper_letters = ''ABCDEFGHIJKLMNOPQRSTUVWXYZ''"

definition digit_chars :: string where
  "digit_chars = ''0123456789''"

text \<open>
  \<open>\d\<close>, \<open>[a-zA-Z]\<close>, \<open>\s\<close> (blank, tab, newline, vertical tab, form feed, carriage
  return and the four separators 28..31), the dot (anything but a newline), a literal, a
  letter matched without regard to case, and a range of digits.
\<close>

definition Digit :: cls where
  "Digit = OneOf digit_chars"

definition Alpha :: cls where
  "Alpha = OneOf (lower_letters @ upper_letters)"

definition Space :: cls where
  "Space = OneOf [CHR 0x20, CHR 0x09, CHR 0x0A, CHR 0x0B, CHR 0x0C, CHR 0x0D,
                  CHR 0x1C, CHR 0x1D, CHR 0x1E, CHR 0x1F]"

definition AnyChar :: cls where
  "AnyChar = NoneOf [CHR 0x0A]"

definition Lit :: "char \<Rightarrow> cls" where
  "Lit c = OneOf [c]"

definition to_upper :: "char \<Rightarrow> char" where
  "to_upper c = (case map_of (zip lower_letters upper_letters) c of None \<Rightarrow> c | Some u \<Rightarrow> u)"

definition to_lower :: "char \<Rightarrow> char" where
  "to_lower c = (case map_of (zip upper_letters lower_letters) c of None \<Rightarrow> c | Some l \<Rightarrow> l)"

definition LitCI :: "char \<Rightarrow> cls" where
  "LitCI c = OneOf [to_lower c, to_upper c]"

text \<open>The digits from \<open>a\<close> to \<open>b\<close>, both given by their value.\<close>

definition Range :: "nat \<Rightarrow> nat \<Rightarrow> cls" where
  "Range a b = OneOf (take (Suc b - a) (drop a digit_chars))"

datatype elem =
    Alts "string option" "cls list list"
  | Rep "string option" cls nat "nat option"

type_synonym captures = "(string \<times> string) list"

text \<open>The groups captured so far and the text matched so far.\<close>

type_synonym matched = "captures \<times> string"

text \<open>Whether a fixed sequence of classes matches the beginning of the text.\<close>

fun seq_matches :: "cls list \<Rightarrow> string \<Rightarrow> bool" where
  "seq_matches [] s = True"
| "seq_matches (c # cs) [] = False"
| "seq_matches (c # cs) (x # xs) = (cls_matches c x \<and> seq_matches cs xs)"

definition consume :: "string option \<Rightarrow> string \<Rightarrow> matched \<Rightarrow> matched" where
  "consume tag txt m =
     (case tag of
        None \<Rightarrow> (fst m, snd m @ txt)
      | Some t \<Rightarrow> (fst m @ [(t, txt)], snd m @ txt))"

text \<open>
  The alternatives in order: the first one that matches and lets the rest of the pattern
  match wins.
\<close>

fun try_alts ::
  "(string \<Rightarrow> matched \<Rightarrow> (matched \<times> string) option) \<Rightarrow> string option \<Rightarrow> cls list list \<Rightarrow> string
     \<Rightarrow> matched \<Rightarrow> (matched \<times> string) option" where
  "try_alts k tag [] s m = None"
| "try_alts k tag (a # as) s m =
     (if seq_matches a s
      then (case k (drop (length a) s) (consume tag (take (length a) s) m) of
              Some r \<Rightarrow> Some r
            | None \<Rightarrow> try_alts k tag as s m)
      else try_alts k tag as s m)"

text \<open>
  A greedy repetition: \<open>n\<close> characters first, then fewer, down to the lower bound.
\<close>

fun try_counts ::
  "(string \<Rightarrow> matched \<Rightarrow> (matched \<times> string) option) \<Rightarrow> string option \<Rightarrow> nat \<Rightarrow> string
     \<Rightarrow> matched \<Rightarrow> nat \<Rightarrow> (matched \<times> string) option" where
  "try_counts k tag lo s m 0 =
     (if 0 < lo then None else k s (consume tag [] m))"
| "try_counts k tag lo s m (Suc n) =
     (if Suc n < lo then None
      else (case k (drop (Suc n) s) (consume tag (take (Suc n) s) m) of
              Some r \<Rightarrow> Some r
            | None \<Rightarrow> try_counts k tag lo s m n))"

text \<open>The length of the longest run of the class at the beginning, up to the bound.\<close>

fun run_length :: "cls \<Rightarrow> nat option \<Rightarrow> string \<Rightarrow> nat" where
  "run_length c hi [] = 0"
| "run_length c hi (x # xs) =
     (if hi = Some 0 \<or> \<not> cls_matches c x then 0
      else Suc (run_length c (map_option (\<lambda>h. h - 1) hi) xs))"

text \<open>
  \<open>pattern.match\<close> at the beginning of a text: the groups, the matched text and the
  text left over.
\<close>

primrec match_here :: "elem list \<Rightarrow> string \<Rightarrow> matched \<Rightarrow> (matched \<times> string) option" where
  "match_here [] s m = Some (m, s)"
| "match_here (e # es) s m =
     (case e of
        Alts tag alts \<Rightarrow> try_alts (match_here es) tag alts s m
      | Rep tag c lo hi \<Rightarrow> try_counts (match_here es) tag lo s m (run_length c hi s))"

text \<open>\<open>pattern.search(text).group()\<close>: the leftmost match, or \<open>None\<close>.\<close>

fun re_search :: "elem list \<Rightarrow> string \<Rightarrow> string option" where
  "re_search p [] =
     (case match_here p [] ([], []) of None \<Rightarrow> None | Some (m, rest) \<Rightarrow> Some (snd m))"
| "re_search p (x # xs) =
     (case match_here p (x # xs) ([], []) of
        Some (m, rest) \<Rightarrow> Some (snd m)
      | None \<Rightarrow> re_search p xs)"

definition digits :: "nat \<Rightarrow> elem" where
  "digits n = Rep None Digit n (Some n)"

definition lit :: "char \<Rightarrow> elem" where
  "lit c = Alts None [[Lit c]]"

definition spaces :: elem where
  "spaces = Rep None Space 1 None"

definition dot :: elem where
  "dot = Rep None AnyChar 1 (Some 1)"

text \<open>\<open>\d{2}:\d{2}:\d{2}\<close>, which every pattern with a time of day contains.\<close>

definition re_hms :: "elem list" where
  "re_hms = [digits 2, lit CHR '':'', digits 2, lit CHR '':'', digits 2]"

definition re_ymd :: "char \<Rightarrow> elem list" where
  "re_ymd sep = [digits 4, lit sep, digits 2, lit sep, digits 2]"

subsection \<open>Formats of strptime\<close>

datatype directive = DY | Dm | Dd | DH | DM | DS | Df | Db | DSpace | DLit char

text \<open>
  The pattern that \<open>_strptime\<close> builds for a directive: \<open>%m\<close> is
  \<open>1[0-2]|0[1-9]|[1-9]\<close>, \<open>%d\<close> is \<open>3[0-1]|[1-2]\d|0[1-9]|[1-9]| [1-9]\<close>, \<open>%H\<close> is
  \<open>2[0-3]|[0-1]\d|\d\<close>, \<open>%M\<close> is \<open>[0-5]\d|\d\<close>, \<open>%S\<close> is \<open>6[0-1]|[0-5]\d|\d\<close>, \<open>%f\<close>
  is \<open>[0-9]{1,6}\<close>, \<open>%b\<close> is the month abbreviations of the C locale without regard
  to case, and white space in the format is \<open>\s+\<close>.
\<close>

definition month_abbrs :: "string list" where
  "month_abbrs = [''jan'', ''feb'', ''mar'', ''apr'', ''may'', ''jun'',
                  ''jul'', ''aug'', ''sep'', ''oct'', ''nov'', ''dec'']"

definition r09 :: cls where "r09 = Range 0 9"
definition r19 :: cls where "r19 = Range 1 9"

fun directive_re :: "directive \<Rightarrow> elem" where
  "directive_re DY = Alts (Some ''Y'') [[r09, r09, r09, r09]]"
| "directive_re Dm =
     Alts (Some ''m'') [[Lit CHR ''1'', Range 0 2], [Lit CHR ''0'', r19], [r19]]"
| "directive_re Dd =
     Alts (Some ''d'') [[Lit CHR ''3'', Range 0 1], [Range 1 2, r09],
                         [Lit CHR ''0'', r19], [r19], [Lit CHR '' '', r19]]"
| "directive_re DH =
     Alts (Some ''H'') [[Lit CHR ''2'', Range 0 3], [Range 0 1, r09], [r09]]"
| "directive_re DM = Alts (Some ''M'') [[Range 0 5, r09], [r09]]"
| "directive_re DS =
     Alts (Some ''S'') [[Lit CHR ''6'', Range 0 1], [Range 0 5, r09], [r09]]"
| "directive_re Df = Rep (Some ''f'') r09 1 (Some 6)"
| "directive_re Db = Alts (Some ''b'') (map (map LitCI) month_abbrs)"
| "directive_re DSpace = Rep None Space 1 None"
| "directive_re (DLit c) = Alts None [[Lit c]]"

subsection \<open>Dates\<close>

text \<open>
  A \<open>datetime\<close>. Every datetime of this module carries the fixed zone UTC+08:00 (the
  parsed ones by \<open>replace(tzinfo=...)\<close>), so the zone is not a field.
\<close>

record datetime =
  year :: int
  month :: int
  day :: int
  hour :: int
  minute :: int
  second :: int
  microsecond :: int

definition is_leap :: "int \<Rightarrow> bool" where
  "is_leap y = (y mod 4 = 0 \<and> (y mod 100 \<noteq> 0 \<or> y mod 400 = 0))"

definition days_in_month :: "int \<Rightarrow> int \<Rightarrow> int" where
  "days_in_month y m =
     (if m = 2 then (if is_leap y then 29 else 28)
      else if m = 4 \<or> m = 6 \<or> m = 9 \<or> m = 11 then 30 else 31)"

text \<open>The checks of the \<open>datetime\<close> constructor; a violation is a \<open>ValueError\<close>.\<close>

definition valid_datetime :: "datetime \<Rightarrow> bool" where
  "valid_datetime dt =
     (1 \<le> year dt \<and> year dt \<le> 9999 \<and> 1 \<le> month dt \<and> month dt \<le> 12
      \<and> 1 \<le> day dt \<and> day dt \<le> days_in_month (year dt) (month dt)
      \<and> 0 \<le> hour dt \<and> hour dt \<le> 23 \<and> 0 \<le> minute dt \<and> minute dt \<le> 59
      \<and> 0 \<le> second dt \<and> second dt \<le> 59
      \<and> 0 \<le> microsecond dt \<and> microsecond dt \<le> 999999)"

definition checked :: "datetime \<Rightarrow> py_error + datetime" where
  "checked dt = (if valid_datetime dt then Inr dt else Inl ValueError)"

text \<open>The proleptic Gregorian ordinal of a date (1 for 0001-01-01), as \<open>toordinal\<close>.\<close>

definition days_before_year :: "int \<Rightarrow> int" where
  "days_before_year y = (y - 1) * 365 + (y - 1) div 4 - (y - 1) div 100 + (y - 1) div 400"

definition days_before_month :: "int \<Rightarrow> int \<Rightarrow> int" where
  "days_before_month y m = (\<Sum>k \<leftarrow> [1..m - 1]. days_in_month y k)"

definition toordinal :: "datetime \<Rightarrow> int" where
  "toordinal dt = days_before_year (year dt) + days_before_month (year dt) (month dt) + day dt"

text \<open>
  \<open>int(dt.timestamp())\<close> for a datetime in UTC+08:00: the seconds since 1970-01-01 UTC
  (ordinal 719163), with \<open>int\<close> rounding towards zero.
\<close>

definition epoch_seconds :: "datetime \<Rightarrow> int" where
  "epoch_seconds dt =
     (toordinal dt - 719163) * 86400 + hour dt * 3600 + minute dt * 60 + second dt - 8 * 3600"

definition timestamp_int :: "datetime \<Rightarrow> int" where
  "timestamp_int dt =
     (if epoch_seconds dt < 0 \<and> microsecond dt > 0 then epoch_seconds dt + 1
      else epoch_seconds dt)"

text \<open>\<open>a < b\<close> on two datetimes of the same zone.\<close>

definition dt_key :: "datetime \<Rightarrow> int list" where
  "dt_key dt = [year dt, month dt, day dt, hour dt, minute dt, second dt, microsecond dt]"

fun lex_less :: "int list \<Rightarrow> int list \<Rightarrow> bool" where
  "lex_less [] ys = (ys \<noteq> [])"
| "lex_less (x # xs) [] = False"
| "lex_less (x # xs) (y # ys) = (x < y \<or> (x = y \<and> lex_less xs ys))"

definition dt_less :: "datetime \<Rightarrow> datetime \<Rightarrow> bool" where
  "dt_less a b = lex_less (dt_key a) (dt_key b)"

text \<open>\<open>dt + timedelta(days=1)\<close> and \<open>dt - timedelta(days=1)\<close>; outside the years 1..9999 they overflow.\<close>

definition plus_one_day :: "datetime \<Rightarrow> py_error + datetime" where
  "plus_one_day dt =
     (if day dt < days_in_month (year dt) (month dt) then Inr (dt\<lparr>day := day dt + 1\<rparr>)
      else if month dt < 12 then Inr (dt\<lparr>month := month dt + 1, day := 1\<rparr>)
      else if year dt < 9999 then Inr (dt\<lparr>year := year dt + 1, month := 1, day := 1\<rparr>)
      else Inl OverflowError)"

definition minus_one_day :: "datetime \<Rightarrow> py_error + datetime" where
  "minus_one_day dt =
     (if 1 < day dt then Inr (dt\<lparr>day := day dt - 1\<rparr>)
      else if 1 < month dt
      then Inr (dt\<lparr>month := month dt - 1, day := days_in_month (year dt) (month dt - 1)\<rparr>)
      else if 1 < year dt then Inr (dt\<lparr>year := year dt - 1, month := 12, day := 31\<rparr>)
      else Inl OverflowError)"

subsection \<open>strptime\<close>

fun index_in :: "'a \<Rightarrow> 'a list \<Rightarrow> int" where
  "index_in x [] = 0"
| "index_in x (y # ys) = (if x = y then 0 else 1 + index_in x ys)"

definition digit_value :: "char \<Rightarrow> int" where
  "digit_value c = index_in c digit_chars"

text \<open>\<open>int(s)\<close> for a string of digits; \<open>%d\<close> may capture a leading blank, which \<open>int\<close> skips.\<close>

definition int_of_digits :: "string \<Rightarrow> int" where
  "int_of_digits s = foldl (\<lambda>acc c. acc * 10 + digit_value c) 0 (filter (\<lambda>c. c \<noteq> CHR '' '') s)"

definition lower_str :: "string \<Rightarrow> string" where
  "lower_str s = map to_lower s"

definition capture :: "captures \<Rightarrow> string \<Rightarrow> string option" where
  "capture caps t = map_of caps t"

text \<open>
  The fields that \<open>_strptime\<close> reads from the groups: the year defaults to 1900, month and
  day to 1, the time to midnight; \<open>%f\<close> is padded with zeros on the right to six digits.
\<close>

definition fields_of :: "captures \<Rightarrow> datetime" where
  "fields_of caps =
     \<lparr>year = (case capture caps ''Y'' of None \<Rightarrow> 1900 | Some s \<Rightarrow> int_of_digits s),
      month = (case capture caps ''m'' of
                 Some s \<Rightarrow> int_of_digits s
               | None \<Rightarrow> (case capture caps ''b'' of
                            None \<Rightarrow> 1
                          | Some s \<Rightarrow> index_in (lower_str s) month_abbrs + 1)),
      day = (case capture caps ''d'' of None \<Rightarrow> 1 | Some s \<Rightarrow> int_of_digits s),
      hour = (case capture caps ''H'' of None \<Rightarrow> 0 | Some s \<Rightarrow> int_of_digits s),
      minute = (case capture caps ''M'' of None \<Rightarrow> 0 | Some s \<Rightarrow> int_of_digits s),
      second = (case capture caps ''S'' of None \<Rightarrow> 0 | Some s \<Rightarrow> int_of_digits s),
      microsecond = (case capture caps ''f'' of
                       None \<Rightarrow> 0
                     | Some s \<Rightarrow> int_of_digits (s @ replicate (6 - length s) CHR ''0''))\<rparr>"

text \<open>
  \<open>datetime.strptime(text, format)\<close>: the format's pattern must match the whole text, and
  the fields must make a date; otherwise \<open>ValueError\<close>.
\<close>

definition strptime :: "string \<Rightarrow> directive list \<Rightarrow> py_error + datetime" where
  "strptime txt fmt =
     (case match_here (map directive_re fmt) txt ([], []) of
        None \<Rightarrow> Inl ValueError
      | Some (m, rest) \<Rightarrow>
          (if rest \<noteq> [] then Inl ValueError else checked (fields_of (fst m))))"

subsection \<open>The tables and functions of the module\<close>

definition fmt_date :: "char \<Rightarrow> directive list" where
  "fmt_date sep = [DY, DLit sep, Dm, DLit sep, Dd]"

definition fmt_time :: "directive list" where
  "fmt_time = [DH, DLit CHR '':'', DM, DLit CHR '':'', DS]"

definition hint_options :: "(elem list \<times> directive list) list" where
  "hint_options =
     [(re_ymd CHR ''-'' @ [spaces] @ re_hms, fmt_date CHR ''-'' @ [DSpace] @ fmt_time),
      (re_ymd CHR ''/'' @ [spaces] @ re_hms, fmt_date CHR ''/'' @ [DSpace] @ fmt_time),
      ([digits 10], [DY, Dm, Dd, DH])]"

definition ts_schema :: "(elem list \<times> directive list) list" where
  "ts_schema =
     [(re_ymd CHR ''-'' @ [spaces] @ re_hms @ [dot, digits 3],
       fmt_date CHR ''-'' @ [DSpace] @ fmt_time @ [DLit CHR ''.'', Df]),
      (re_ymd CHR ''-'' @ [spaces] @ re_hms @ [lit CHR '','', digits 3],
       fmt_date CHR ''-'' @ [DSpace] @ fmt_time @ [DLit CHR '','', Df]),
      ([digits 4, spaces] @ re_hms @ [dot, digits 6],
       [Dm, Dd, DSpace] @ fmt_time @ [DLit CHR ''.'', Df]),
      ([Rep None Alpha 3 (Some 3), spaces, Rep None Digit 1 (Some 2), spaces] @ re_hms,
       [Db, DSpace, Dd, DSpace] @ fmt_time),
      (re_hms @ [dot, digits 3], fmt_time @ [DLit CHR ''.'', Df])]"

text \<open>\<open>get_hint_from_text\<close>: the first option that matches and parses.\<close>

fun get_hint_from_text :: "(elem list \<times> directive list) list \<Rightarrow> string \<Rightarrow> datetime option" where
  "get_hint_from_text [] txt = None"
| "get_hint_from_text ((re, fmt) # opts) txt =
     (case re_search re txt of
        None \<Rightarrow> get_hint_from_text opts txt
      | Some g \<Rightarrow>
          (case strptime g fmt of
             Inr dt \<Rightarrow> Some dt
           | Inl e \<Rightarrow> get_hint_from_text opts txt))"

text \<open>
  A log file as the module reads it: its name, its size in bytes, its text decoded with
  \<open>errors="ignore"\<close> (ASCII here, so offsets in bytes are offsets in characters), and what
  reading the first line with strict decoding gives.
\<close>

record log_file =
  lf_name :: string
  lf_size :: int
  lf_text :: string
  lf_first_line :: "py_error + string"

definition get_timestamp_hint_from_file :: "log_file \<Rightarrow> py_error + datetime option" where
  "get_timestamp_hint_from_file f =
     (case get_hint_from_text hint_options (lf_name f) of
        Some h \<Rightarrow> Inr (Some h)
      | None \<Rightarrow>
          (case lf_first_line f of
             Inl e \<Rightarrow> Inl e
           | Inr first_line \<Rightarrow> Inr (get_hint_from_text hint_options first_line)))"

text \<open>\<open>dt.replace(year=..., month=..., day=...)\<close> checks the new date.\<close>

definition replace_date :: "datetime \<Rightarrow> int \<Rightarrow> int \<Rightarrow> int \<Rightarrow> py_error + datetime" where
  "replace_date dt y m d = checked (dt\<lparr>year := y, month := m, day := d\<rparr>)"

text \<open>
  \<open>get_timestamp_with_hint\<close>; \<open>now\<close> is \<open>datetime.now()\<close>, read as a time of the fixed
  zone as the source does.
\<close>

definition get_timestamp_with_hint ::
  "datetime \<Rightarrow> datetime option \<Rightarrow> directive list \<Rightarrow> datetime \<Rightarrow> py_error + datetime" where
  "get_timestamp_with_hint dt hint fmt now =
     (case hint of
        Some h \<Rightarrow>
          (if Dd \<notin> set fmt then
             (case replace_date dt (year h) (month h) (day h) of
                Inl e \<Rightarrow> Inl e
              | Inr candidate \<Rightarrow> (if dt_less candidate h then plus_one_day candidate else Inr candidate))
           else if DY \<notin> set fmt then
             (case replace_date dt (year h) (month dt) (day dt) of
                Inl e \<Rightarrow> Inl e
              | Inr candidate \<Rightarrow>
                  (if dt_less candidate h
                   then replace_date candidate (year h + 1) (month candidate) (day candidate)
                   else Inr candidate))
           else Inr dt)
      | None \<Rightarrow>
          (if Dd \<notin> set fmt then
             (case replace_date dt (year now) (month now) (day now) of
                Inl e \<Rightarrow> Inl e
              | Inr candidate \<Rightarrow> (if dt_less now candidate then minus_one_day candidate else Inr candidate))
           else if DY \<notin> set fmt then
             (case replace_date dt (year now) (month dt) (day dt) of
                Inl e \<Rightarrow> Inl e
              | Inr candidate \<Rightarrow>
                  (if dt_less now candidate
                   then replace_date candidate (year now - 1) (month candidate) (day candidate)
                   else Inr candidate))
           else Inr dt))"

text \<open>
  \<open>get_timestamp_from_line\<close>: the first schema that matches, parses and resolves; a
  \<open>ValueError\<close> moves on to the next schema, any other exception leaves the function.
\<close>

fun timestamp_from_schemas ::
  "(elem list \<times> directive list) list \<Rightarrow> string \<Rightarrow> datetime option \<Rightarrow> datetime
     \<Rightarrow> py_error + datetime option" where
  "timestamp_from_schemas [] line hint now = Inr None"
| "timestamp_from_schemas ((re, fmt) # schemas) line hint now =
     (case re_search re line of
        None \<Rightarrow> timestamp_from_schemas schemas line hint now
      | Some g \<Rightarrow>
          (case strptime g fmt of
             Inl e \<Rightarrow>
               (if e = ValueError then timestamp_from_schemas schemas line hint now else Inl e)
           | Inr parsed_time \<Rightarrow>
               (case get_timestamp_with_hint parsed_time hint fmt now of
                  Inl e \<Rightarrow>
                    (if e = ValueError then timestamp_from_schemas schemas line hint now else Inl e)
                | Inr t \<Rightarrow> Inr (Some t))))"

definition get_timestamp_from_line :: "string \<Rightarrow> datetime option \<Rightarrow> datetime \<Rightarrow> py_error + datetime option" where
  "get_timestamp_from_line line hint now = timestamp_from_schemas ts_schema line hint now"

definition CHUNK_SIZE :: nat where "CHUNK_SIZE = 16 * 1024"
definition BUFFER_SIZE :: nat where "BUFFER_SIZE = 512"
definition ATTEMPT_LIMIT :: nat where "ATTEMPT_LIMIT = 5"

text \<open>\<open>f.seek(offset); f.read(CHUNK_SIZE + BUFFER_SIZE)\<close>.\<close>

definition read_chunk :: "log_file \<Rightarrow> int \<Rightarrow> string" where
  "read_chunk f offset = take (CHUNK_SIZE + BUFFER_SIZE) (drop (nat offset) (lf_text f))"

fun start_attempts :: "log_file \<Rightarrow> datetime option \<Rightarrow> datetime \<Rightarrow> nat list \<Rightarrow> py_error + int option" where
  "start_attempts f hint now [] = Inr None"
| "start_attempts f hint now (attempt # rest) =
     (let start_offset = int (attempt * CHUNK_SIZE)
      in if start_offset \<ge> lf_size f then Inr None
         else
           (case get_timestamp_from_line (read_chunk f start_offset) hint now of
              Inl e \<Rightarrow> Inl e
            | Inr (Some t) \<Rightarrow> Inr (Some (timestamp_int t))
            | Inr None \<Rightarrow> start_attempts f hint now rest))"

definition get_start_timestamp :: "log_file \<Rightarrow> datetime \<Rightarrow> py_error + int option" where
  "get_start_timestamp f now =
     (case get_timestamp_hint_from_file f of
        Inl e \<Rightarrow> Inl e
      | Inr hint \<Rightarrow> start_attempts f hint now [0..<ATTEMPT_LIMIT])"

text \<open>
  \<open>str.splitlines()\<close>: lines end at \<open>\n\<close>, \<open>\r\<close>, \<open>\r\n\<close>, vertical tab, form feed and
  the separators 28..30; there is no empty last line.
\<close>

definition is_linebreak :: "char \<Rightarrow> bool" where
  "is_linebreak c = (c \<in> set [CHR 0x0A, CHR 0x0B, CHR 0x0C, CHR 0x0D, CHR 0x1C, CHR 0x1D, CHR 0x1E])"

function splitlines :: "string \<Rightarrow> string list" where
  "splitlines s =
     (if s = [] then []
      else
        (case dropWhile (\<lambda>c. \<not> is_linebreak c) s of
           [] \<Rightarrow> [s]
         | c # r \<Rightarrow>
             takeWhile (\<lambda>c. \<not> is_linebreak c) s
             # splitlines (if c = CHR 0x0D \<and> r \<noteq> [] \<and> hd r = CHR 0x0A then tl r else r)))"
  by pat_completeness auto
termination
proof (relation "measure length")
  fix s :: string and c r
  assume "dropWhile (\<lambda>c. \<not> is_linebreak c) s = c # r"
  then have "length (c # r) \<le> length s"
    by (metis length_dropWhile_le)
  then show "((if c = CHR 0x0D \<and> r \<noteq> [] \<and> hd r = CHR 0x0A then tl r else r), s) \<in> measure length"
    by auto
qed simp

declare splitlines.simps [simp del]

text \<open>The lines of a chunk from the last to the first.\<close>

fun last_timestamp :: "string list \<Rightarrow> datetime option \<Rightarrow> datetime \<Rightarrow> py_error + datetime option" where
  "last_timestamp [] hint now = Inr None"
| "last_timestamp (line # lines) hint now =
     (case get_timestamp_from_line line hint now of
        Inl e \<Rightarrow> Inl e
      | Inr (Some t) \<Rightarrow> Inr (Some t)
      | Inr None \<Rightarrow> last_timestamp lines hint now)"

fun end_attempts :: "log_file \<Rightarrow> datetime option \<Rightarrow> datetime \<Rightarrow> nat list \<Rightarrow> py_error + int option" where
  "end_attempts f hint now [] = Inr None"
| "end_attempts f hint now (attempt # rest) =
     (let end_offset = lf_size f - int (attempt * CHUNK_SIZE);
          start_offset = max 0 (end_offset - int CHUNK_SIZE - int BUFFER_SIZE)
      in if end_offset \<le> 0 then Inr None
         else
           (case last_timestamp (rev (splitlines (read_chunk f start_offset))) hint now of
              Inl e \<Rightarrow> Inl e
            | Inr (Some t) \<Rightarrow> Inr (Some (timestamp_int t))
            | Inr None \<Rightarrow> end_attempts f hint now rest))"

definition get_end_timestamp :: "log_file \<Rightarrow> datetime \<Rightarrow> py_error + int option" where
  "get_end_timestamp f now =
     (case get_timestamp_hint_from_file f of
        Inl e \<Rightarrow> Inl e
      | Inr hint \<Rightarrow> end_attempts f hint now [0..<ATTEMPT_LIMIT])"

text \<open>
  The file of scenario S-1 with exactly its two lines, and a clock (used only when a line
  has no date, which is not the case here).
\<close>

definition S1_file :: log_file where
  "S1_file =
     \<lparr>lf_name = ''svc_20240115_12.log'',
      lf_size = 68,
      lf_text = ''2024-01-15 12:00:00,123 INFO start'' @ [CHR 0x0A] @ ''2024-01-15 12:05:42.000 INFO done'',
      lf_first_line = Inr (''2024-01-15 12:00:00,123 INFO start'' @ [CHR 0x0A])\<rparr>"

text \<open>
  Every file of that name whose first line and last line are those of S-1: any lines
  between them, each ended by a line feed, and the last line with or without one.
  \<open>S1_file\<close> is the one with nothing between.
\<close>

definition S1_first :: string where
  "S1_first = ''2024-01-15 12:00:00,123 INFO start''"

definition S1_last :: string where
  "S1_last = ''2024-01-15 12:05:42.000 INFO done''"

definition S1_text :: "string list \<Rightarrow> bool \<Rightarrow> string" where
  "S1_text between final_newline =
     S1_first @ [CHR 0x0A] @ concat (map (\<lambda>l. l @ [CHR 0x0A]) between)
       @ S1_last @ (if final_newline then [CHR 0x0A] else [])"

definition S1_log :: "string list \<Rightarrow> bool \<Rightarrow> log_file" where
  "S1_log between final_newline =
     \<lparr>lf_name = ''svc_20240115_12.log'',
      lf_size = int (length (S1_text between final_newline)),
      lf_text = S1_text between final_newline,
      lf_first_line = Inr (S1_first @ [CHR 0x0A])\<rparr>"

definition some_now :: datetime where
  "some_now = \<lparr>year = 2024, month = 6, day = 1, hour = 0, minute = 0, second = 0, microsecond = 0\<rparr>"

section \<open>File types and the file-state index (cos/mods/common/default)\<close>

subsection \<open>Paths and the file system\<close>

definition endswith :: "string \<Rightarrow> string \<Rightarrow> bool" where
  "endswith s suffix = (length suffix \<le> length s \<and> drop (length s - length suffix) s = suffix)"

text \<open>\<open>Path(p).parent\<close>, printed.\<close>

definition path_parent :: "string \<Rightarrow> string" where
  "path_parent p =
     (let s = path_root p @ join_with ''/'' (butlast (path_parts p))
      in if s = [] then ''.'' else s)"

text \<open>
  What the handlers see of the file system and of the libraries that read recordings:
  the entries of a directory (absolute paths), the kind and size of a path, a log file as
  \<open>log_utils\<close> reads it, the clock, and what the MCAP summary, the ROS1 reader and the
  ROS2 reader give for a path (they raise, or return the start and end of the recording
  in nanoseconds; an MCAP file may have no summary).
\<close>

record fs_env =
  iterdir :: "string \<Rightarrow> string list"
  path_exists :: "string \<Rightarrow> bool"
  is_file :: "string \<Rightarrow> bool"
  is_dir :: "string \<Rightarrow> bool"
  st_size :: "string \<Rightarrow> int"
  log_of :: "string \<Rightarrow> log_file"
  clock :: datetime
  mcap_summary :: "string \<Rightarrow> py_error + (int \<times> int) option"
  ros1_reader :: "string \<Rightarrow> py_error + (int \<times> int)"
  ros2_reader :: "string \<Rightarrow> py_error + (int \<times> int)"

subsection \<open>Entries of the index\<close>

text \<open>
  The dictionary stored for one path. Its keys are \<open>size\<close>, \<open>start_time\<close>, \<open>end_time\<close>,
  \<open>unsupported\<close>, \<open>is_dir\<close> and \<open>processed\<close>; a field is \<open>None\<close> when the key is absent.
\<close>

record file_state =
  fs_size :: "int option"
  fs_start_time :: "int option"
  fs_end_time :: "int option"
  fs_unsupported :: "bool option"
  fs_is_dir :: "bool option"
  fs_processed :: "bool option"

definition empty_state :: file_state where
  "empty_state = \<lparr>fs_size = None, fs_start_time = None, fs_end_time = None,
                   fs_unsupported = None, fs_is_dir = None, fs_processed = None\<rparr>"

definition unsupported_state :: "int \<Rightarrow> file_state" where
  "unsupported_state sz = empty_state\<lparr>fs_size := Some sz, fs_unsupported := Some True\<rparr>"

definition timed_state :: "int \<Rightarrow> int \<Rightarrow> int \<Rightarrow> file_state" where
  "timed_state sz s e = empty_state\<lparr>fs_size := Some sz, fs_start_time := Some s, fs_end_time := Some e\<rparr>"

text \<open>\<open>d.get(key)\<close> as a truth value: an absent key is false.\<close>

definition flag :: "bool option \<Rightarrow> bool" where
  "flag b = (case b of None \<Rightarrow> False | Some v \<Rightarrow> v)"

subsection \<open>Handlers\<close>

datatype handler = LogHandler | McapHandler | Ros1Handler | Ros2Handler

definition HANDLERS :: "handler list" where
  "HANDLERS = [LogHandler, McapHandler, Ros1Handler, Ros2Handler]"

fun supports_static :: "handler \<Rightarrow> bool" where
  "supports_static LogHandler = False"
| "supports_static McapHandler = True"
| "supports_static Ros1Handler = True"
| "supports_static Ros2Handler = True"

definition ros2_files :: "fs_env \<Rightarrow> string \<Rightarrow> string list" where
  "ros2_files env p =
     filter (\<lambda>e. is_file env e \<and> (endswith (path_name e) ''.db3'' \<or> path_name e = ''metadata.yaml''))
       (iterdir env p)"

definition compute_ros2_dir_size :: "fs_env \<Rightarrow> string \<Rightarrow> int" where
  "compute_ros2_dir_size env p = (\<Sum>e \<leftarrow> ros2_files env p. st_size env e)"

fun check_file_path :: "handler \<Rightarrow> fs_env \<Rightarrow> string \<Rightarrow> bool" where
  "check_file_path LogHandler env p = (is_file env p \<and> endswith (path_name p) ''.log'')"
| "check_file_path McapHandler env p = (is_file env p \<and> endswith (path_name p) ''.mcap'')"
| "check_file_path Ros1Handler env p =
     (is_file env p \<and> (endswith (path_name p) ''.bag'' \<or> endswith (path_name p) ''.bag.active''))"
| "check_file_path Ros2Handler env p =
     (is_dir env p
      \<and> (\<exists>e \<in> set (iterdir env p). is_file env e \<and> path_name e \<noteq> ''metadata.yaml''
                                       \<and> endswith (path_name e) ''.db3'')
      \<and> (\<exists>e \<in> set (iterdir env p). is_file env e \<and> path_name e = ''metadata.yaml''))"

fun get_file_size :: "handler \<Rightarrow> fs_env \<Rightarrow> string \<Rightarrow> int" where
  "get_file_size Ros2Handler env p = compute_ros2_dir_size env p"
| "get_file_size h env p = st_size env p"

text \<open>
  \<open>update_path_state\<close>: the handler raises, returns without calling \<open>update_func\<close>, or
  calls it once with the new entry. Recording times are in nanoseconds and divided by
  \<open>1_000_000_000\<close>.
\<close>

datatype update_result = Raise py_error | NoWrite | WriteState file_state

fun update_path_state :: "handler \<Rightarrow> fs_env \<Rightarrow> string \<Rightarrow> update_result" where
  "update_path_state LogHandler env p =
     (case get_start_timestamp (log_of env p) (clock env) of
        Inl e \<Rightarrow> Raise e
      | Inr None \<Rightarrow> WriteState (unsupported_state (st_size env p))
      | Inr (Some start_time) \<Rightarrow>
          (case get_end_timestamp (log_of env p) (clock env) of
             Inl e \<Rightarrow> Raise e
           | Inr None \<Rightarrow> WriteState (unsupported_state (st_size env p))
           | Inr (Some end_time) \<Rightarrow> WriteState (timed_state (st_size env p) start_time end_time)))"
| "update_path_state McapHandler env p =
     (case mcap_summary env p of
        Inl e \<Rightarrow> Raise e
      | Inr None \<Rightarrow> NoWrite
      | Inr (Some (s, e)) \<Rightarrow>
          WriteState (timed_state (st_size env p) (s div 1000000000) (e div 1000000000)))"
| "update_path_state Ros1Handler env p =
     (case ros1_reader env p of
        Inl e \<Rightarrow> Raise e
      | Inr (s, e) \<Rightarrow>
          WriteState (timed_state (st_size env p) (s div 1000000000) (e div 1000000000)))"
| "update_path_state Ros2Handler env p =
     (case ros2_reader env p of
        Inl e \<Rightarrow> Raise e
      | Inr (s, e) \<Rightarrow>
          WriteState ((timed_state (compute_ros2_dir_size env p) (s div 1000000000) (e div 1000000000))
                        \<lparr>fs_is_dir := Some True\<rparr>))"

subsection \<open>The index (file_state_handler.py)\<close>

text \<open>
  The index is a Python dictionary from absolute path to entry; iteration follows
  insertion order, so it is an association list with distinct keys here.
\<close>

type_synonym index = "(string \<times> file_state) list"

fun dict_set :: "string \<Rightarrow> file_state \<Rightarrow> index \<Rightarrow> index" where
  "dict_set k v [] = [(k, v)]"
| "dict_set k v ((k', v') # r) = (if k = k' then (k, v) # r else (k', v') # dict_set k v r)"

definition dict_del :: "string \<Rightarrow> index \<Rightarrow> index" where
  "dict_del k d = filter (\<lambda>(k', v). k' \<noteq> k) d"

definition get_file_state :: "index \<Rightarrow> string \<Rightarrow> file_state option" where
  "get_file_state d p = map_of d p"

text \<open>
  The singleton: the dictionary in memory and the JSON file at \<open>FILE_STATE_PATH\<close>
  (\<open>None\<close> when it does not exist).
\<close>

record FileStateHandler =
  state :: index
  disk :: "index option"

definition FileStateHandler_new :: "index option \<Rightarrow> FileStateHandler" where
  "FileStateHandler_new d = \<lparr>state = [], disk = d\<rparr>"

definition load_state :: "FileStateHandler \<Rightarrow> FileStateHandler" where
  "load_state h = (case disk h of None \<Rightarrow> h | Some d \<Rightarrow> h\<lparr>state := d\<rparr>)"

definition save_state :: "FileStateHandler \<Rightarrow> FileStateHandler" where
  "save_state h = h\<lparr>disk := Some (state h)\<rparr>"

text \<open>\<open>__update_file_state\<close>: nothing happens for a path without a (non-empty) entry.\<close>

definition update_file_state_processed :: "string \<Rightarrow> index \<Rightarrow> index" where
  "update_file_state_processed p d =
     (case get_file_state d p of
        None \<Rightarrow> d
      | Some st \<Rightarrow> (if st = empty_state then d else dict_set p (st\<lparr>fs_processed := Some True\<rparr>) d))"

text \<open>\<open>__update_deleted_file_state\<close>: entries of paths that no longer exist are removed.\<close>

definition update_deleted_file_state :: "fs_env \<Rightarrow> index \<Rightarrow> index" where
  "update_deleted_file_state env d =
     foldl (\<lambda>acc k. if \<not> path_exists env k then dict_del k acc else acc) d (map fst d)"

text \<open>The body of the inner loop of \<open>update_dir\<close> for one entry and one handler.\<close>

definition update_entry :: "fs_env \<Rightarrow> string \<Rightarrow> handler \<Rightarrow> index \<Rightarrow> index" where
  "update_entry env entry h d =
     (if \<not> check_file_path h env entry then d
      else
        (case get_file_state d entry of
           Some st \<Rightarrow>
             (if st \<noteq> empty_state \<and> fs_size st = Some (get_file_size h env entry) then d
              else
                (case update_path_state h env entry of
                   Raise e \<Rightarrow> dict_set entry (unsupported_state (st_size env entry)) d
                 | NoWrite \<Rightarrow> d
                 | WriteState v \<Rightarrow> dict_set entry v d))
         | None \<Rightarrow>
             (case update_path_state h env entry of
                Raise e \<Rightarrow> dict_set entry (unsupported_state (st_size env entry)) d
              | NoWrite \<Rightarrow> d
              | WriteState v \<Rightarrow> dict_set entry v d)))"

definition update_dir :: "fs_env \<Rightarrow> string \<Rightarrow> FileStateHandler \<Rightarrow> FileStateHandler" where
  "update_dir env dir_path h =
     save_state
       (h\<lparr>state :=
            update_deleted_file_state env
              (foldl (\<lambda>d entry. foldl (\<lambda>d' hdl. update_entry env entry hdl d') d HANDLERS)
                 (state h) (iterdir env dir_path))\<rparr>)"

text \<open>
  \<open>static_file_diagnosis\<close>, as far as the index goes: for each static handler that
  supports the file, the function returns when the entry is missing, already processed
  at this size, or unsupported; otherwise it marks the entry processed and saves. The
  diagnosis itself does not touch the index; \<open>diagnose_raises\<close> says whether it raises,
  which ends the function after the save.
\<close>

fun static_handlers :: "fs_env \<Rightarrow> string \<Rightarrow> bool \<Rightarrow> handler list \<Rightarrow> FileStateHandler \<Rightarrow> FileStateHandler" where
  "static_handlers env p diagnose_raises [] h = h"
| "static_handlers env p diagnose_raises (hdl # hds) h =
     (if \<not> supports_static hdl \<or> \<not> check_file_path hdl env p
      then static_handlers env p diagnose_raises hds h
      else
        (case get_file_state (state h) p of
           None \<Rightarrow> h
         | Some st \<Rightarrow>
             (if st = empty_state then h
              else if flag (fs_processed st) \<and> Some (get_file_size hdl env p) = fs_size st then h
              else if flag (fs_unsupported st) then h
              else
                (let h' = save_state (h\<lparr>state := update_file_state_processed p (state h)\<rparr>)
                 in if diagnose_raises then h' else static_handlers env p diagnose_raises hds h'))))"

definition static_file_diagnosis :: "fs_env \<Rightarrow> string \<Rightarrow> bool \<Rightarrow> FileStateHandler \<Rightarrow> FileStateHandler" where
  "static_file_diagnosis env p diagnose_raises h = static_handlers env p diagnose_raises HANDLERS h"

text \<open>
  The \<open>dir_path\<close> argument of \<open>get_files\<close>: the signature says a \<open>Path\<close>; a caller may
  pass a list of paths, which is never equal to a \<open>Path\<close>.
\<close>

datatype dir_arg = OnePath string | PathList "string list"

fun parent_is :: "string \<Rightarrow> dir_arg \<Rightarrow> bool" where
  "parent_is fname (OnePath d) = (path_parent fname = path_str d)"
| "parent_is fname (PathList ds) = False"

text \<open>
  \<open>get_files\<close>: the conditions of the comprehension in order; \<open>and\<close> stops at the first
  false one, and comparing \<open>None\<close> with an integer raises \<open>TypeError\<close>.
\<close>

fun get_files :: "index \<Rightarrow> dir_arg \<Rightarrow> int \<Rightarrow> int \<Rightarrow> bool \<Rightarrow> py_error + string list" where
  "get_files [] dir_path start_time end_time get_dir = Inr []"
| "get_files ((fname, st) # d) dir_path start_time end_time get_dir =
     (if \<not> parent_is fname dir_path \<or> flag (fs_unsupported st)
      then get_files d dir_path start_time end_time get_dir
      else
        (case fs_start_time st of
           None \<Rightarrow> Inl TypeError
         | Some s \<Rightarrow>
             (if \<not> s \<le> end_time then get_files d dir_path start_time end_time get_dir
              else
                (case fs_end_time st of
                   None \<Rightarrow> Inl TypeError
                 | Some e \<Rightarrow>
                     (if e \<ge> start_time \<and> flag (fs_is_dir st) = get_dir
                      then (case get_files d dir_path start_time end_time get_dir of
                              Inl err \<Rightarrow> Inl err
                            | Inr fs \<Rightarrow> Inr (fname # fs))
                      else get_files d dir_path start_time end_time get_dir)))))"

text \<open>
  The operations on the singleton, and a run of them from a state. Each operation comes
  with the file system it finds.
\<close>

datatype index_op =
    LoadState
  | SaveState
  | UpdateDir fs_env string
  | StaticFileDiagnosis fs_env string bool

fun apply_index_op :: "index_op \<Rightarrow> FileStateHandler \<Rightarrow> FileStateHandler" where
  "apply_index_op LoadState h = load_state h"
| "apply_index_op SaveState h = save_state h"
| "apply_index_op (UpdateDir env p) h = update_dir env p h"
| "apply_index_op (StaticFileDiagnosis env p r) h = static_file_diagnosis env p r h"

definition run_index_ops :: "index_op list \<Rightarrow> FileStateHandler \<Rightarrow> FileStateHandler" where
  "run_index_ops ops h = foldl (\<lambda>h' op. apply_index_op op h') h ops"

text \<open>
  An entry the range comparisons of \<open>get_files\<close> can handle: it is marked unsupported, or
  it has both times.
\<close>

definition entry_ok :: "file_state \<Rightarrow> bool" where
  "entry_ok st = (fs_unsupported st = Some True \<or> (fs_start_time st \<noteq> None \<and> fs_end_time st \<noteq> None))"

definition index_ok :: "index \<Rightarrow> bool" where
  "index_ok d = list_all (\<lambda>(k, st). entry_ok st) d"

definition handler_ok :: "FileStateHandler \<Rightarrow> bool" where
  "handler_ok h = (index_ok (state h) \<and> (case disk h of None \<Rightarrow> True | Some d \<Rightarrow> index_ok d))"

text \<open>
  A directory \<open>/logs\<close> with the log file of S-1 and an MCAP file that the reader
  rejects, and three operations on it.
\<close>

definition demo_env :: fs_env where
  "demo_env =
     \<lparr>iterdir = (\<lambda>d. if d = ''/logs'' then [''/logs/svc_20240115_12.log'', ''/logs/run.mcap''] else []),
      path_exists = (\<lambda>p. True), is_file = (\<lambda>p. True), is_dir = (\<lambda>p. False),
      st_size = (\<lambda>p. 68), log_of = (\<lambda>p. S1_file), clock = some_now,
      mcap_summary = (\<lambda>p. Inl OtherError),
      ros1_reader = (\<lambda>p. Inl OtherError),
      ros2_reader = (\<lambda>p. Inl OtherError)\<rparr>"

definition demo_ops :: "index_op list" where
  "demo_ops = [LoadState, UpdateDir demo_env ''/logs'',
               StaticFileDiagnosis demo_env ''/logs/run.mcap'' False]"

text \<open>An entry without its \<open>processed\<close> key.\<close>

definition without_processed :: "file_state \<Rightarrow> file_state" where
  "without_processed st = st\<lparr>fs_processed := None\<rparr>"

section \<open>Collector (cos/collector/collector.py)\<close>

























section \<open>Default mod (cos/mods/common/default/mod.py)\<close>

text \<open>
  An upload-request JSON of the mod's state directory. \<open>__dump_upload_json\<close> writes
  \<open>flag\<close>, \<open>projectName\<close>, \<open>record\<close> and \<open>cut\<close> (with \<open>extraFiles\<close>, \<open>start\<close>, \<open>end\<close>);
  the other keys are added later. A field is \<open>None\<close> when the key is absent.
\<close>

record cut =
  cut_start :: int
  cut_end :: int
  extraFiles :: "string list"

record error_json =
  ej_flag :: "bool option"
  ej_cut :: "cut option"
  ej_bag :: "string list option"
  ej_log :: "string list option"
  ej_files :: "string list option"
  ej_dirs :: "string list option"
  ej_zips :: "string list option"
  ej_startTime :: "int option"
  ej_paths_to_delete :: "string list option"
  ej_uploaded :: "bool option"
  ej_skipped :: "bool option"

text \<open>
  The attributes of a \<open>FileStateHandler\<close>: the methods and the property of the class
  (private methods under their mangled names) and the attributes that \<open>__init__\<close> sets.
  The class has no \<open>__getattr__\<close>, so any other name raises \<open>AttributeError\<close>.
\<close>

definition FileStateHandler_attributes :: "string list" where
  "FileStateHandler_attributes =
     [''state_path'', ''get_instance'', ''load_state'', ''save_state'', ''get_file_state'',
      ''update_dir'', ''static_file_diagnosis'', ''get_files'',
      ''_FileStateHandler__register_file_handlers'', ''_FileStateHandler__set_file_state'',
      ''_FileStateHandler__del_file_state'', ''_FileStateHandler__update_file_state'',
      ''_FileStateHandler__update_deleted_file_state'',
      ''_instance'', ''_lock'', ''state'', ''update_lock'', ''file_handlers'']"

definition getattr_FileStateHandler :: "string \<Rightarrow> py_error option" where
  "getattr_FileStateHandler name =
     (if name \<in> set FileStateHandler_attributes then None else Some AttributeError)"

text \<open>
  What the materialization sees of the file system: the kind of a path, and whether
  copying a file, slicing a log, zipping a directory or copying a directory tree fails.
\<close>

record mat_env =
  me_is_file :: "string \<Rightarrow> bool"
  me_is_dir :: "string \<Rightarrow> bool"
  me_copy_fails :: "string \<Rightarrow> bool"
  me_copytree_fails :: "string \<Rightarrow> bool"

text \<open>\<open>os.path.splitext(name)[0]\<close> and \<open>Path.with_suffix\<close>: the name without its last extension.\<close>

definition name_stem :: "string \<Rightarrow> string" where
  "name_stem n =
     (let dots = dropWhile (\<lambda>c. c = CHR ''.'') n;
          lead = takeWhile (\<lambda>c. c = CHR ''.'') n;
          r = rev dots
      in if CHR ''.'' \<in> set dots
         then lead @ rev (tl (dropWhile (\<lambda>c. c \<noteq> CHR ''.'') r))
         else n)"

definition join_path :: "string \<Rightarrow> string \<Rightarrow> string" where
  "join_path d n = path_str (d @ ''/'' @ n)"

text \<open>Lines 173-196: one gathered path; a failure is logged and the path is left out.\<close>

record gathered =
  bag_files :: "string list"
  log_files :: "string list"
  other_files :: "string list"
  zips :: "string list"

definition gather_file :: "mat_env \<Rightarrow> string \<Rightarrow> gathered \<Rightarrow> string \<Rightarrow> gathered" where
  "gather_file env temp_files_dir g f =
     (if me_is_file env f then
        (if me_copy_fails env f then g
         else if endswith f ''.bag''
         then g\<lparr>bag_files := bag_files g @ [join_path temp_files_dir (path_name f)]\<rparr>
         else if endswith f ''.log''
         then g\<lparr>log_files := log_files g @ [join_path temp_files_dir (path_name f)]\<rparr>
         else g\<lparr>other_files := other_files g @ [join_path temp_files_dir (path_name f)]\<rparr>)
      else if me_is_dir env f then
        (if me_copy_fails env f then g
         else g\<lparr>zips := zips g @ [join_path temp_files_dir (name_stem (path_name f) @ ''.zip'')]\<rparr>)
      else g)"

text \<open>
  Lines 144-208, the materialization, for the index as the update left it: \<open>now_ms\<close> is
  \<open>int(time.time() * 1000)\<close> and \<open>rand\<close> is the value of \<open>random.randint(1, 1000)\<close>. The
  source passes the list \<open>source_dirs\<close> to \<open>get_files\<close>.
\<close>

definition materialize ::
  "mat_env \<Rightarrow> index \<Rightarrow> string \<Rightarrow> string list \<Rightarrow> string \<Rightarrow> int \<Rightarrow> int \<Rightarrow> cut \<Rightarrow> error_json
     \<Rightarrow> py_error option \<times> error_json" where
  "materialize env idx error_json_path source_dirs temp_dir now_ms rand ct ej =
     (let temp_files_dir = join_path temp_dir (name_stem (path_name error_json_path))
      in (case get_files idx (PathList source_dirs) (cut_start ct) (cut_end ct) False of
            Inl e \<Rightarrow> (Some e, ej)
          | Inr found \<Rightarrow>
              (case get_files idx (PathList source_dirs) (cut_start ct) (cut_end ct) True of
                 Inl e \<Rightarrow> (Some e, ej)
               | Inr raw_dirs \<Rightarrow>
                   (if \<exists>d \<in> set raw_dirs. me_copytree_fails env d then (Some OtherError, ej)
                    else
                      (let g = foldl (gather_file env temp_files_dir)
                                 \<lparr>bag_files = [], log_files = [], other_files = [], zips = []\<rparr>
                                 (found @ extraFiles ct)
                       in (None,
                           ej\<lparr>ej_bag := Some (bag_files g), ej_log := Some (log_files g),
                              ej_files := Some (other_files g),
                              ej_dirs := Some (map (\<lambda>d. join_path temp_files_dir (path_name d)) raw_dirs),
                              ej_zips := Some (zips g), ej_flag := Some True,
                              ej_startTime := Some (now_ms + rand),
                              ej_paths_to_delete := Some [temp_files_dir]\<rparr>))))))"

text \<open>
  \<open>__find_files_and_update_error_json\<close>: the result is the exception, if any, and the
  JSON file afterwards. Line 143 calls \<open>file_state_handler.update_dirs(source_dirs)\<close>;
  looking the attribute up comes first. (No attribute of that name exists; were there
  one, the materialization would follow.)
\<close>

definition find_files_and_update_error_json ::
  "mat_env \<Rightarrow> index \<Rightarrow> string \<Rightarrow> string list \<Rightarrow> string \<Rightarrow> int \<Rightarrow> int \<Rightarrow> error_json
     \<Rightarrow> py_error option \<times> error_json" where
  "find_files_and_update_error_json env idx error_json_path source_dirs temp_dir now_ms rand ej =
     (case ej_cut ej of
        None \<Rightarrow> (None, ej)
      | Some ct \<Rightarrow>
          (if ej_flag ej = None \<or> flag (ej_flag ej) then (None, ej)
           else if now_ms < cut_end ct * 1000 then (None, ej)
           else
             (case getattr_FileStateHandler ''update_dirs'' of
                Some e \<Rightarrow> (Some e, ej)
              | None \<Rightarrow> materialize env idx error_json_path source_dirs temp_dir now_ms rand ct ej)))"

text \<open>
  \<open>handle_error_json\<close>, as far as the JSON file goes: a materialized request that is
  neither uploaded nor skipped is turned into a record cache and marked uploaded.
\<close>

definition handle_error_json :: "error_json \<Rightarrow> error_json" where
  "handle_error_json ej =
     (if flag (ej_flag ej) \<and> ej_uploaded ej = None \<and> ej_skipped ej = None
      then ej\<lparr>ej_uploaded := Some True\<rparr> else ej)"

record DefaultModConfig =
  mod_enabled :: bool
  base_dirs :: "string list option"

text \<open>
  \<open>__handle_upload_files\<close> starts with the same call \<open>update_dirs(source_dirs)\<close> (line
  253), outside any \<open>try\<close>.
\<close>

definition handle_upload_files :: "py_error option" where
  "handle_upload_files = getattr_FileStateHandler ''update_dirs''"

text \<open>
  One sweep, \<open>run\<close>, over the JSON files of the state directory. In the loop an
  exception of a file is logged and the loop goes on with the next file.
\<close>

definition sweep_one ::
  "mat_env \<Rightarrow> index \<Rightarrow> string list \<Rightarrow> string \<Rightarrow> int \<Rightarrow> int \<Rightarrow> string \<times> error_json
     \<Rightarrow> string \<times> error_json" where
  "sweep_one env idx source_dirs temp_dir now_ms rand pj =
     (case find_files_and_update_error_json env idx (fst pj) source_dirs temp_dir now_ms rand (snd pj) of
        (Some e, ej) \<Rightarrow> (fst pj, ej)
      | (None, ej) \<Rightarrow> (fst pj, handle_error_json ej))"

definition run_mod ::
  "mat_env \<Rightarrow> index \<Rightarrow> DefaultModConfig \<Rightarrow> string \<Rightarrow> int \<Rightarrow> int \<Rightarrow> (string \<times> error_json) list
     \<Rightarrow> py_error option \<times> (string \<times> error_json) list" where
  "run_mod env idx cfg temp_dir now_ms rand jsons =
     (if \<not> mod_enabled cfg then (None, jsons)
      else
        (case base_dirs cfg of
           None \<Rightarrow> (None, jsons)
         | Some dirs \<Rightarrow>
             (if dirs = [] then (None, jsons)
              else
                (case handle_upload_files of
                   Some e \<Rightarrow> (Some e, jsons)
                 | None \<Rightarrow> (None, map (sweep_one env idx dirs temp_dir now_ms rand) jsons)))))"

text \<open>A pending request whose cut window ended at second 200, and a file system that works.\<close>

definition pending_json :: error_json where
  "pending_json =
     \<lparr>ej_flag = Some False,
      ej_cut = Some \<lparr>cut_start = 100, cut_end = 200, extraFiles = [''/logs/extra.log'']\<rparr>,
      ej_bag = None, ej_log = None, ej_files = None, ej_dirs = None, ej_zips = None,
      ej_startTime = None, ej_paths_to_delete = None, ej_uploaded = None, ej_skipped = None\<rparr>"

definition working_fs :: mat_env where
  "working_fs = \<lparr>me_is_file = (\<lambda>p. True), me_is_dir = (\<lambda>p. False),
                 me_copy_fails = (\<lambda>p. False), me_copytree_fails = (\<lambda>p. False)\<rparr>"

section \<open>RecordCache keeps the given files\<close>

text \<open>
  C2, as stated: constructing a RecordCache from \<open>["a","a","b"]\<close> yields the files
  \<open>["a","b"]\<close>. The constructor has no step that removes duplicates, so the statement
  fails at exactly that input.
\<close>

theorem RecordCache_files_dedup_counterexample:
  "map_sum id files
     (RecordCache_init \<lparr>d_event_code = PStr ''e'', d_timestamp = Some 0,
        d_skipped = False, d_files = [''a'', ''a'', ''b''], d_file_infos = []\<rparr>)
   \<noteq> Inr [''a'', ''b'']"
  by (simp add: RecordCache_init_def)

text \<open>
  C2, amended: a RecordCache constructed with a timestamp keeps a non-empty files list
  exactly as given, in order and with its duplicates, and when no file infos were passed
  it derives one FileInfo per element of that list, in the same order; with an empty files
  list the files are the printed paths of the given file infos.
\<close>

theorem RecordCache_files_kept:
  "RecordCache_init (d\<lparr>d_timestamp := Some ts\<rparr>) = Inr rc \<longrightarrow>
     files rc =
       (if d_files d = [] then map (\<lambda>f. path_str (filepath f)) (d_file_infos d) else d_files d)
     \<and> (d_files d \<noteq> [] \<and> d_file_infos d = [] \<longrightarrow>
          map filepath (file_infos rc) = d_files d)"
  by (auto simp: RecordCache_init_def FileInfo_init_def comp_def)

theorem RecordCache_files_kept_witness:
  "map_sum id (\<lambda>rc. (files rc, map filepath (file_infos rc)))
     (RecordCache_init \<lparr>d_event_code = PStr ''e'', d_timestamp = Some 0,
        d_skipped = False, d_files = [''a'', ''a'', ''b''], d_file_infos = []\<rparr>)
   = Inr ([''a'', ''a'', ''b''], [''a'', ''a'', ''b''])"
  using RecordCache_files_kept
    [where d = "\<lparr>d_event_code = PStr ''e'', d_timestamp = Some 0,
          d_skipped = False, d_files = [''a'', ''a'', ''b''], d_file_infos = []\<rparr>" and ts = 0]
  by (simp add: RecordCache_init_def FileInfo_init_def)

section \<open>Properties of the event code limiter\<close>


lemma str_int_200: "str_int 200 = ''200''" by code_simp
lemma str_int_404: "str_int 404 = ''404''" by code_simp
lemma str_int_500: "str_int 500 = ''500''" by code_simp
lemma str_int_999: "str_int 999 = ''999''" by code_simp

lemma create_no_reset:
  "\<not> reset_due now m \<Longrightarrow>
     create_or_reset_state now m = Inr (m\<lparr>last_reset_timestamp := loaded_timestamp m\<rparr>)"
  by (simp add: create_or_reset_state_def Let_def)

lemma loaded_timestamp_stable:
  "loaded_timestamp (m\<lparr>last_reset_timestamp := loaded_timestamp m\<rparr>) = loaded_timestamp m"
  by (simp add: loaded_timestamp_def split: option.splits)

lemma reset_due_file: "\<not> reset_due now m \<Longrightarrow> state_file m \<noteq> None"
  by (simp add: reset_due_def)

lemma hit_no_reset:
  assumes "enabled (conf m)" and "\<not> reset_due now m"
  shows "\<exists>m'. hit now c m = Inr m' \<and> conf m' = conf m
           \<and> loaded_timestamp m' = loaded_timestamp m
           \<and> state_file m' \<noteq> None
           \<and> (\<forall>k. counter_of m' k = counter_of m k + (if truthy c \<and> py_str c = k then 1 else 0))"
proof (cases "truthy c")
  case False
  with assms reset_due_file[OF assms(2)] show ?thesis
    by (auto simp: hit_def)
next
  case True
  from assms(2) obtain st where st: "state_file m = Some st"
    using reset_due_file by blast
  let ?m1 = "m\<lparr>last_reset_timestamp := loaded_timestamp m\<rparr>"
  have l: "loaded_timestamp (?m1\<lparr>state_file := Some (st\<lparr>s_counters := x\<rparr>)\<rparr>) = loaded_timestamp m" for x
    using st by (simp add: loaded_timestamp_def split: option.splits)
  show ?thesis
    using assms True st l
    by (simp add: hit_def create_no_reset counter_of_def get_counter_def Let_def
          split: option.splits)
qed

lemma reset_due_cong:
  "conf m' = conf m \<Longrightarrow> loaded_timestamp m' = loaded_timestamp m \<Longrightarrow>
   (state_file m' = None) = (state_file m = None) \<Longrightarrow> reset_due t m' = reset_due t m"
  by (simp add: reset_due_def)

lemma hit_count_Cons:
  "hit_count k ((t, c) # hs) = (if truthy c \<and> py_str c = k then 1 else 0) + hit_count k hs"
  by (simp add: hit_count_def)

lemma hit_all_no_reset:
  assumes "enabled (conf m)" and "\<forall>(t, c) \<in> set hs. \<not> reset_due t m"
  shows "\<exists>m'. hit_all hs m = Inr m' \<and> conf m' = conf m
           \<and> loaded_timestamp m' = loaded_timestamp m
           \<and> (state_file m' = None) = (state_file m = None)
           \<and> (\<forall>k. counter_of m' k = counter_of m k + hit_count k hs)"
  using assms
proof (induction hs arbitrary: m)
  case Nil
  then show ?case by (simp add: hit_count_def)
next
  case (Cons h hs)
  obtain t c where h: "h = (t, c)" by (cases h)
  from Cons.prems h have nr: "\<not> reset_due t m" by simp
  from hit_no_reset[OF Cons.prems(1) nr, of c] obtain m1 where
    m1: "hit t c m = Inr m1" "conf m1 = conf m" "loaded_timestamp m1 = loaded_timestamp m"
        "state_file m1 \<noteq> None"
        "\<forall>k. counter_of m1 k = counter_of m k + (if truthy c \<and> py_str c = k then 1 else 0)"
    by (elim exE conjE)
  have same: "reset_due u m1 = reset_due u m" for u
    using m1 nr by (intro reset_due_cong) (simp_all add: reset_due_file)
  have en: "enabled (conf m1)" using m1 Cons.prems(1) by simp
  have nrs: "\<forall>(t, c) \<in> set hs. \<not> reset_due t m1"
    using Cons.prems(2) same by auto
  from Cons.IH[OF en nrs] obtain m2 where
    m2: "hit_all hs m1 = Inr m2" "conf m2 = conf m1" "loaded_timestamp m2 = loaded_timestamp m1"
        "(state_file m2 = None) = (state_file m1 = None)"
        "\<forall>k. counter_of m2 k = counter_of m1 k + hit_count k hs"
    by (elim exE conjE)
  show ?case
    using m1 m2 h nr reset_due_file[OF nr] by (auto simp: hit_count_Cons)
qed


lemma is_over_limit_after_state:
  assumes "create_or_reset_state now m = Inr m'" and "enabled (conf m)"
  shows "is_over_limit now c m =
           Inr ((if \<not> truthy c then True
                 else (case whitelist (conf m) (py_str c) of
                         None \<Rightarrow> True
                       | Some limit \<Rightarrow> limit \<noteq> - 1 \<and> counter_of m' (py_str c) \<ge> limit)), m')"
proof -
  have c: "conf m' = conf m" and f: "state_file m' \<noteq> None"
    using assms(1)
    by (auto simp: create_or_reset_state_def Let_def reset_due_def split: if_splits)
  from f obtain st where "state_file m' = Some st" by blast
  then show ?thesis
    using assms c by (simp add: is_over_limit_def counter_of_def split: option.splits)
qed

lemma reset_clears:
  assumes "reset_due now m" and "create_or_reset_state now m = Inr m'"
  shows "counter_of m' k = 0"
  using assms
  by (auto simp: create_or_reset_state_def Let_def counter_of_def get_counter_def split: if_splits)

lemma create_or_reset_state_ok:
  "reset_interval_in_secs (conf m) \<noteq> 0 \<or> \<not> reset_due now m \<Longrightarrow>
     \<exists>m'. create_or_reset_state now m = Inr m'"
  by (cases "reset_due now m") (simp_all add: create_or_reset_state_def Let_def)

text \<open>
  C8: what \<open>is_over_limit(c)\<close> returns. With the limiter disabled it is false. With the
  limiter enabled (and the interval not zero, or no reset due, so that the housekeeping
  call cannot divide by zero) it is true for an empty code, true for a code missing from
  the whitelist, false for a whitelist entry of -1, and otherwise it compares the counter
  of the state file, as the housekeeping call left it, with the limit; a reset that is
  due sets every counter to zero first. While no reset falls due, every \<open>hit(c)\<close> adds
  one to the counter of \<open>str(c)\<close>, so after a sequence of hits the answer is true iff
  the counter at the start plus the number of hits of that code reaches the limit.
\<close>

theorem is_over_limit_counts:
  "(\<not> enabled (conf m) \<longrightarrow> is_over_limit now c m = Inr (False, m))
   \<and> (enabled (conf m) \<and> (reset_interval_in_secs (conf m) \<noteq> 0 \<or> \<not> reset_due now m) \<longrightarrow>
        (\<exists>m'. create_or_reset_state now m = Inr m'
           \<and> (reset_due now m \<longrightarrow> (\<forall>k. counter_of m' k = 0))
           \<and> is_over_limit now c m =
                 Inr ((if \<not> truthy c then True
                       else (case whitelist (conf m) (py_str c) of
                               None \<Rightarrow> True
                             | Some limit \<Rightarrow>
                                 limit \<noteq> - 1 \<and> counter_of m' (py_str c) \<ge> limit)), m')))
   \<and> (enabled (conf m) \<and> (\<forall>(t, c') \<in> set hs. \<not> reset_due t m) \<and> \<not> reset_due now m \<longrightarrow>
        limited_after hs now c m =
          Inr (if \<not> truthy c then True
               else (case whitelist (conf m) (py_str c) of
                       None \<Rightarrow> True
                     | Some limit \<Rightarrow>
                         limit \<noteq> - 1
                         \<and> counter_of m (py_str c) + hit_count (py_str c) hs \<ge> limit)))"
proof (intro conjI impI)
  assume "\<not> enabled (conf m)"
  then show "is_over_limit now c m = Inr (False, m)"
    by (simp add: is_over_limit_def)
next
  assume a: "enabled (conf m) \<and> (reset_interval_in_secs (conf m) \<noteq> 0 \<or> \<not> reset_due now m)"
  then obtain m' where m': "create_or_reset_state now m = Inr m'"
    using create_or_reset_state_ok[of m now] by blast
  show "\<exists>m'. create_or_reset_state now m = Inr m'
           \<and> (reset_due now m \<longrightarrow> (\<forall>k. counter_of m' k = 0))
           \<and> is_over_limit now c m =
                 Inr ((if \<not> truthy c then True
                       else (case whitelist (conf m) (py_str c) of
                               None \<Rightarrow> True
                             | Some limit \<Rightarrow>
                                 limit \<noteq> - 1 \<and> counter_of m' (py_str c) \<ge> limit)), m')"
    using m' a is_over_limit_after_state[OF m', of c] reset_clears[OF _ m'] by blast
next
  assume a: "enabled (conf m) \<and> (\<forall>(t, c') \<in> set hs. \<not> reset_due t m) \<and> \<not> reset_due now m"
  then have en: "enabled (conf m)" and nrs: "\<forall>(t, c') \<in> set hs. \<not> reset_due t m"
    and nr: "\<not> reset_due now m" by blast+
  from hit_all_no_reset[OF en nrs] obtain m1 where
    m1: "hit_all hs m = Inr m1" "conf m1 = conf m" "loaded_timestamp m1 = loaded_timestamp m"
        "(state_file m1 = None) = (state_file m = None)"
        "\<forall>k. counter_of m1 k = counter_of m k + hit_count k hs"
    by (elim exE conjE)
  have nr1: "\<not> reset_due now m1"
    using m1 nr reset_due_cong[of m1 m now] by simp
  let ?m2 = "m1\<lparr>last_reset_timestamp := loaded_timestamp m1\<rparr>"
  have cnt: "counter_of (x\<lparr>last_reset_timestamp := v\<rparr>) k = counter_of x k" for x v k
    by (simp add: counter_of_def)
  have en1: "enabled (conf m1)" using m1 en by simp
  show "limited_after hs now c m =
          Inr (if \<not> truthy c then True
               else (case whitelist (conf m) (py_str c) of
                       None \<Rightarrow> True
                     | Some limit \<Rightarrow>
                         limit \<noteq> - 1
                         \<and> counter_of m (py_str c) + hit_count (py_str c) hs \<ge> limit))"
    using is_over_limit_after_state[OF create_no_reset[OF nr1] en1, of c] m1
    by (simp add: limited_after_def cnt split: option.splits)
qed

lemma S4_first_hit:
  "hit 1700000000 (PInt 200) (EventCodeManager_init S4_conf None) =
     Inr \<lparr>conf = S4_conf, last_reset_timestamp = 1699920000,
          state_file = Some \<lparr>s_last_reset_timestamp = Some 1700000000,
                              s_counters = Some [''200'' \<mapsto> 1]\<rparr>\<rparr>"
  by (simp add: hit_def EventCodeManager_init_def S4_conf_def create_or_reset_state_def
        reset_due_def loaded_timestamp_def get_counter_def Let_def str_int_200)

text \<open>
  The scenario S-4 of the specification, from a new process without a state file: the
  first hit creates the state file; the whitelist is \<open>S4_conf\<close>.
\<close>

theorem is_over_limit_counts_witness:
  "limited_after [(1700000000, PInt 200), (1700000001, PInt 200), (1700000002, PInt 404)]
      1700000003 (PInt 200) (EventCodeManager_init S4_conf None) = Inr True
   \<and> limited_after [(1700000000, PInt 200), (1700000001, PInt 200), (1700000002, PInt 404)]
      1700000003 (PInt 404) (EventCodeManager_init S4_conf None) = Inr False
   \<and> limited_after [(1700000000, PInt 200), (1700000001, PInt 200), (1700000002, PInt 404)]
      1700000003 (PInt 500) (EventCodeManager_init S4_conf None) = Inr False
   \<and> limited_after [(1700000000, PInt 200), (1700000001, PInt 200), (1700000002, PInt 404)]
      1700000003 (PInt 999) (EventCodeManager_init S4_conf None) = Inr True"
proof -
  let ?m1 = "\<lparr>conf = S4_conf, last_reset_timestamp = 1699920000,
          state_file = Some \<lparr>s_last_reset_timestamp = Some 1700000000,
                              s_counters = Some [''200'' \<mapsto> 1]\<rparr>\<rparr>"
  let ?hs = "[(1700000001, PInt 200), (1700000002, PInt 404)]"
  have first: "limited_after ((1700000000, PInt 200) # ?hs) now c (EventCodeManager_init S4_conf None)
      = limited_after ?hs now c ?m1" for now c
    by (simp add: limited_after_def S4_first_hit)
  have en: "enabled (conf ?m1)" by (simp add: S4_conf_def)
  have nrs: "\<forall>(t, c') \<in> set ?hs. \<not> reset_due t ?m1"
    by (simp add: reset_due_def loaded_timestamp_def S4_conf_def)
  have nr: "\<not> reset_due 1700000003 ?m1"
    by (simp add: reset_due_def loaded_timestamp_def S4_conf_def)
  have eq: "limited_after ?hs 1700000003 c ?m1 =
          Inr (if \<not> truthy c then True
               else (case whitelist (conf ?m1) (py_str c) of
                       None \<Rightarrow> True
                     | Some limit \<Rightarrow>
                         limit \<noteq> - 1
                         \<and> counter_of ?m1 (py_str c) + hit_count (py_str c) ?hs \<ge> limit))" for c
    using is_over_limit_counts[of ?m1 1700000003 c ?hs] en nrs nr by blast
  show ?thesis
    unfolding first eq
    by (simp add: S4_conf_def counter_of_def get_counter_def hit_count_def
          str_int_200 str_int_404 str_int_500 str_int_999)
qed


text \<open>
  C5: a reset advances the attribute \<open>last_reset_timestamp\<close> by a whole number of
  intervals, but the state file receives \<open>now\<close>. With an interval of 86400 and a state
  file holding 100000, a reset at 300000 moves the attribute to 272800 and writes 300000;
  the next process loads 300000, which is 200000 after the previous value and not a whole
  number of intervals (the remainder is 27200).
\<close>

theorem reset_persists_now:
  "map_sum id (\<lambda>m. (last_reset_timestamp m, state_file m,
        loaded_timestamp (EventCodeManager_init day_conf (state_file m))))
     (create_or_reset_state 300000
        (EventCodeManager_init day_conf
           (Some \<lparr>s_last_reset_timestamp = Some 100000, s_counters = None\<rparr>)))
   = Inr (272800, Some \<lparr>s_last_reset_timestamp = Some 300000, s_counters = None\<rparr>, 300000)
   \<and> (300000 - 100000) mod reset_interval_in_secs day_conf = 27200"
  by (simp add: create_or_reset_state_def EventCodeManager_init_def day_conf_def reset_due_def
        loaded_timestamp_def Let_def)
section \<open>Properties of the remote configuration cache\<close>


lemma str_int_3: "str_int 3 = ''3''" by code_simp
lemma str_int_4: "str_int 4 = ''4''" by code_simp

text \<open>
  Where the cut file comes from: when writing the cache raises, \<open>read_config\<close> raises and
  leaves a cache file that the next \<open>read_config\<close> cannot parse.
\<close>

lemma full_disk_cuts_cache:
  "read_config full_disk = (Inl OSError, [GetConfigVersion, GetConfig], Raises JSONDecodeError)"
  by (simp add: read_config_def fetch_config_def load_cache_def get_version_def full_disk_def
        cache_v3_def str_int_3 str_int_4)

lemma usable_content:
  assumes "cache_usable rc" and "enable_cache rc"
  shows "load_cache rc = Inr (JObject (cached_content rc))"
  using assms
  by (auto simp: cache_usable_def load_cache_def cached_content_def
           split: cache_file.splits loaded.splits)

lemma fetch_config_returns:
  assumes "store_works rc"
  shows "\<not> isl (fst (fetch_config rc (JObject c) v calls))"
  using assms
  by (auto simp: store_works_def fetch_config_def get_value_def
           split: sum.splits fetched.splits)

text \<open>
  C6, as stated: \<open>read_config()\<close> never raises, and when \<open>get_config_version()\<close> raises
  it returns the last cached value. It does raise: the cache file is read and parsed
  before the first \<open>try\<close> (lines 47-49), so with a cache file cut short and the server
  unreachable \<open>json.loads\<close> raises \<open>JSONDecodeError\<close> out of \<open>read_config\<close>, before any
  remote call.
\<close>

theorem read_config_raises_counterexample:
  "read_config cut_cache = (Inl JSONDecodeError, [], Raises JSONDecodeError)"
  by (simp add: read_config_def load_cache_def cut_cache_def)

text \<open>
  C6, amended: a remote call that raises never makes \<open>read_config()\<close> raise. Provided
  the cache directory can be made and the cache file, if there is one, parses as a JSON
  object: \<open>read_config()\<close> does not raise when, besides, the fetched configuration
  serialises and the cache file can be written; if \<open>get_config_version()\<close> raises, it
  returns the cached value (the empty object without a cache file) and \<open>get_config()\<close>
  is not called; if the server's version prints like the cached one, the same; and if
  the version differs and \<open>get_config()\<close> raises, it returns the cached value. The cache
  file is left as it was in the three cases.
\<close>

theorem read_config_falls_back:
  "cache_usable rc \<longrightarrow>
     (store_works rc \<longrightarrow> \<not> isl (fst (read_config rc)))
     \<and> (enable_cache rc \<and> isl (get_config_version rc) \<longrightarrow>
          read_config rc = (Inr (cached_value rc), [GetConfigVersion], cache_file rc))
     \<and> (enable_cache rc \<and> get_config_version rc = Inr v \<and> py_str v = py_str (cached_version rc) \<longrightarrow>
          read_config rc = (Inr (cached_value rc), [GetConfigVersion], cache_file rc))
     \<and> (enable_cache rc \<and> get_config_version rc = Inr v \<and> py_str v \<noteq> py_str (cached_version rc)
          \<and> isl (get_config rc) \<longrightarrow>
          read_config rc = (Inr (cached_value rc), [GetConfigVersion, GetConfig], cache_file rc))"
proof
  assume u: "cache_usable rc"
  then have m: "mkdir rc = None"
    by (simp add: cache_usable_def)
  have returns: "\<not> isl (fst (read_config rc))" if s: "store_works rc"
  proof (cases "enable_cache rc")
    case False
    then show ?thesis
      using m fetch_config_returns[OF s] by (simp add: read_config_def)
  next
    case True
    then show ?thesis
      using m usable_content[OF u True] fetch_config_returns[OF s]
      by (simp add: read_config_def get_value_def get_version_def split: sum.splits)
  qed
  have version_raises: "read_config rc = (Inr (cached_value rc), [GetConfigVersion], cache_file rc)"
    if "enable_cache rc" "isl (get_config_version rc)"
    using that m usable_content[OF u that(1)]
    by (auto simp: read_config_def get_value_def cached_value_def isl_def)
  have same_version: "read_config rc = (Inr (cached_value rc), [GetConfigVersion], cache_file rc)"
    if "enable_cache rc" "get_config_version rc = Inr v" "py_str v = py_str (cached_version rc)"
    using that m usable_content[OF u that(1)]
    by (simp add: read_config_def get_value_def get_version_def cached_value_def cached_version_def)
  have config_raises:
    "read_config rc = (Inr (cached_value rc), [GetConfigVersion, GetConfig], cache_file rc)"
    if "enable_cache rc" "get_config_version rc = Inr v" "py_str v \<noteq> py_str (cached_version rc)"
       "isl (get_config rc)"
    using that m usable_content[OF u that(1)]
    by (auto simp: read_config_def fetch_config_def get_value_def get_version_def
          cached_value_def cached_version_def isl_def)
  show "(store_works rc \<longrightarrow> \<not> isl (fst (read_config rc)))
     \<and> (enable_cache rc \<and> isl (get_config_version rc) \<longrightarrow>
          read_config rc = (Inr (cached_value rc), [GetConfigVersion], cache_file rc))
     \<and> (enable_cache rc \<and> get_config_version rc = Inr v \<and> py_str v = py_str (cached_version rc) \<longrightarrow>
          read_config rc = (Inr (cached_value rc), [GetConfigVersion], cache_file rc))
     \<and> (enable_cache rc \<and> get_config_version rc = Inr v \<and> py_str v \<noteq> py_str (cached_version rc)
          \<and> isl (get_config rc) \<longrightarrow>
          read_config rc = (Inr (cached_value rc), [GetConfigVersion, GetConfig], cache_file rc))"
    using returns version_raises same_version config_raises by blast
qed

theorem read_config_falls_back_witness:
  "read_config \<lparr>enable_cache = True, mkdir = None, cache_file = Loads (JObject cache_v3),
       get_config_version = Inl ConnectionError, get_config = Inr (Fetched [(''rules'', ''r2'')]),
       cache_write = Written\<rparr>
     = (Inr [(''rules'', ''r1'')], [GetConfigVersion], Loads (JObject cache_v3))
   \<and> read_config \<lparr>enable_cache = True, mkdir = None, cache_file = NoFile,
       get_config_version = Inl ConnectionError, get_config = Inr (Fetched [(''rules'', ''r2'')]),
       cache_write = Written\<rparr>
     = (Inr [], [GetConfigVersion], NoFile)
   \<and> read_config \<lparr>enable_cache = True, mkdir = None, cache_file = Loads (JObject cache_v3),
       get_config_version = Inr (PStr ''3''), get_config = Inr (Fetched [(''rules'', ''r2'')]),
       cache_write = Written\<rparr>
     = (Inr [(''rules'', ''r1'')], [GetConfigVersion], Loads (JObject cache_v3))
   \<and> read_config \<lparr>enable_cache = True, mkdir = None, cache_file = Loads (JObject cache_v3),
       get_config_version = Inr (PInt 4), get_config = Inl ConnectionError,
       cache_write = Written\<rparr>
     = (Inr [(''rules'', ''r1'')], [GetConfigVersion, GetConfig], Loads (JObject cache_v3))
   \<and> \<not> isl (fst (read_config \<lparr>enable_cache = True, mkdir = None, cache_file = Loads (JObject cache_v3),
       get_config_version = Inr (PInt 4), get_config = Inr (Fetched [(''rules'', ''r2'')]),
       cache_write = Written\<rparr>))"
proof -
  let ?a = "\<lparr>enable_cache = True, mkdir = None, cache_file = Loads (JObject cache_v3),
       get_config_version = Inl ConnectionError, get_config = Inr (Fetched [(''rules'', ''r2'')]),
       cache_write = Written\<rparr>"
  let ?b = "\<lparr>enable_cache = True, mkdir = None, cache_file = NoFile,
       get_config_version = Inl ConnectionError, get_config = Inr (Fetched [(''rules'', ''r2'')]),
       cache_write = Written\<rparr>"
  let ?c = "\<lparr>enable_cache = True, mkdir = None, cache_file = Loads (JObject cache_v3),
       get_config_version = Inr (PStr ''3''), get_config = Inr (Fetched [(''rules'', ''r2'')]),
       cache_write = Written\<rparr>"
  let ?d = "\<lparr>enable_cache = True, mkdir = None, cache_file = Loads (JObject cache_v3),
       get_config_version = Inr (PInt 4), get_config = Inl ConnectionError,
       cache_write = Written\<rparr>"
  let ?e = "\<lparr>enable_cache = True, mkdir = None, cache_file = Loads (JObject cache_v3),
       get_config_version = Inr (PInt 4), get_config = Inr (Fetched [(''rules'', ''r2'')]),
       cache_write = Written\<rparr>"
  have a: "read_config ?a = (Inr (cached_value ?a), [GetConfigVersion], cache_file ?a)"
    using read_config_falls_back[of ?a] by (simp add: cache_usable_def)
  have b: "read_config ?b = (Inr (cached_value ?b), [GetConfigVersion], cache_file ?b)"
    using read_config_falls_back[of ?b] by (simp add: cache_usable_def)
  have c: "read_config ?c = (Inr (cached_value ?c), [GetConfigVersion], cache_file ?c)"
    using read_config_falls_back[of ?c "PStr ''3''"]
    by (simp add: cache_usable_def cached_version_def cached_content_def cache_v3_def str_int_3)
  have d: "read_config ?d = (Inr (cached_value ?d), [GetConfigVersion, GetConfig], cache_file ?d)"
    using read_config_falls_back[of ?d "PInt 4"]
    by (simp add: cache_usable_def cached_version_def cached_content_def cache_v3_def
          str_int_3 str_int_4)
  have e: "\<not> isl (fst (read_config ?e))"
    using read_config_falls_back[of ?e] by (simp add: cache_usable_def store_works_def)
  show ?thesis
    unfolding a b c d
    using e by (simp add: cached_value_def cached_content_def cache_v3_def)
qed

section \<open>Properties of the multipart uploader\<close>


lemma next_pos:
  assumes "0 < ps" "1 \<le> a" "p = nat ((a - 1) * ps) \<or> length content \<le> p"
      and "take (nat ps) (drop p content) \<noteq> []"
  shows "p = nat ((a - 1) * ps)"
    and "p + length (take (nat ps) (drop p content)) = nat (((a + 1) - 1) * ps)
         \<or> length content \<le> p + length (take (nat ps) (drop p content))"
proof -
  from assms(4) have lt: "p < length content" by (auto simp: not_le[symmetric])
  with assms(3) show p: "p = nat ((a - 1) * ps)" by simp
  have nn: "0 \<le> (a - 1) * ps" using assms(1,2) by simp
  show "p + length (take (nat ps) (drop p content)) = nat (((a + 1) - 1) * ps)
         \<or> length content \<le> p + length (take (nat ps) (drop p content))"
  proof (cases "nat ps \<le> length content - p")
    case True
    then have "length (take (nat ps) (drop p content)) = nat ps" by simp
    moreover have "nat ((a - 1) * ps) + nat ps = nat (((a + 1) - 1) * ps)"
      using nn assms(1) by (simp add: nat_add_distrib[symmetric] algebra_simps)
    ultimately show ?thesis using p by simp
  next
    case False
    then have "length (take (nat ps) (drop p content)) = length content - p" by simp
    then show ?thesis using lt by simp
  qed
qed

lemma upload_loop_stop:
  "stop n \<or> take (nat (part_size_bytes u)) (drop (pos l) content) = [] \<Longrightarrow>
     upload_loop s3 stop content (n # ns) l u = (None, l\<lparr>curr_part_num := n\<rparr>, u)"
  by (auto simp: Let_def)

lemma upload_loop_fail:
  "\<not> stop n \<Longrightarrow> take (nat (part_size_bytes u)) (drop (pos l) content) \<noteq> [] \<Longrightarrow>
   upload_part s3 n (take (nat (part_size_bytes u)) (drop (pos l) content)) = Inl e \<Longrightarrow>
     upload_loop s3 stop content (n # ns) l u =
       (Some (reraise e), l\<lparr>curr_part_num := n\<rparr>,
        u\<lparr>sent_parts := sent_parts u @ [(n, take (nat (part_size_bytes u)) (drop (pos l) content))]\<rparr>)"
  by (simp add: Let_def)

lemma upload_loop_ok:
  "\<not> stop n \<Longrightarrow> take (nat (part_size_bytes u)) (drop (pos l) content) \<noteq> [] \<Longrightarrow>
   upload_part s3 n (take (nat (part_size_bytes u)) (drop (pos l) content)) = Inr (etag, len) \<Longrightarrow>
   data = take (nat (part_size_bytes u)) (drop (pos l) content) \<Longrightarrow>
   ub = l_uploaded_bytes l + int (length data) \<Longrightarrow>
   i = (info l)\<lparr>current_part_number := n + 1, uploaded_bytes := ub,
                  parts := parts (info l) @ [\<lparr>PartNumber = n, ETag = etag\<rparr>]\<rparr> \<Longrightarrow>
     upload_loop s3 stop content (n # ns) l u =
       upload_loop s3 stop content ns
         \<lparr>pos = pos l + length data, info = i, l_uploaded_bytes = ub, curr_part_num = n\<rparr>
         (u\<lparr>network_usage := increase_download_bytes len (increase_upload_bytes ub (network_usage u)),
            info_file := Some i,
            sent_parts := sent_parts u @ [(n, data)]\<rparr>)"
  by (simp add: Let_def)

lemma upload_loop_frame:
  "upload_loop s3 stop content ns l u = (r, l', u') \<Longrightarrow>
     part_size_bytes u' = part_size_bytes u \<and> file_content u' = file_content u
     \<and> completed u' = completed u"
proof (induction ns arbitrary: l u)
  case Nil
  then show ?case by simp
next
  case (Cons n ns)
  let ?data = "take (nat (part_size_bytes u)) (drop (pos l) content)"
  show ?case
  proof (cases "stop n \<or> ?data = []")
    case True
    have "upload_loop s3 stop content (n # ns) l u = (None, l\<lparr>curr_part_num := n\<rparr>, u)"
      using True by (rule upload_loop_stop)
    with Cons.prems show ?thesis by auto
  next
    case False
    then have ns: "\<not> stop n" and ne: "?data \<noteq> []" by simp_all
    show ?thesis
    proof (cases "upload_part s3 n ?data")
      case (Inl e)
      note upload_loop_fail[of stop n u l content s3 e ns, OF ns ne Inl]
      with Cons.prems show ?thesis by auto
    next
      case (Inr p)
      obtain etag len where p: "upload_part s3 n ?data = Inr (etag, len)"
        using Inr by (cases p) simp
      note upload_loop_ok[of stop n u l content s3 etag len _ _ _ ns, OF ns ne p refl refl refl]
      with Cons.prems Cons.IH show ?thesis by fastforce
    qed
  qed
qed

lemma upload_loop_sent:
  assumes "0 < part_size_bytes u" and "1 \<le> a"
      and "pos l = nat ((a - 1) * part_size_bytes u) \<or> length content \<le> pos l"
      and "upload_loop s3 stop content [a..b] l u = (r, l', u')"
  shows "\<exists>k. sent_parts u' =
           sent_parts u @ map (\<lambda>n. (n, part_bytes content (part_size_bytes u) n)) [a..k]"
  using assms
proof (induction a b arbitrary: l u rule: upto.induct)
  case (1 a b)
  let ?ps = "part_size_bytes u"
  let ?data = "take (nat ?ps) (drop (pos l) content)"
  show ?case
  proof (cases "a \<le> b")
    case False
    then have "[a..b] = []" by simp
    with "1.prems"(4) have "u' = u" by simp
    then have "sent_parts u' = sent_parts u @ map (\<lambda>n. (n, part_bytes content ?ps n)) [a..a - 1]"
      by simp
    then show ?thesis by blast
  next
    case True
    then have ab: "[a..b] = a # [a + 1..b]" by (simp add: upto_rec1)
    show ?thesis
    proof (cases "stop a \<or> ?data = []")
      case True
      have "upload_loop s3 stop content (a # [a + 1..b]) l u = (None, l\<lparr>curr_part_num := a\<rparr>, u)"
        using True by (rule upload_loop_stop)
      with "1.prems"(4) ab have "u' = u" by simp
      then have "sent_parts u' = sent_parts u @ map (\<lambda>n. (n, part_bytes content ?ps n)) [a..a - 1]"
        by simp
      then show ?thesis by blast
    next
      case False
      then have ns: "\<not> stop a" and ne: "?data \<noteq> []" by simp_all
      note np = next_pos[OF "1.prems"(1) "1.prems"(2) "1.prems"(3) ne]
      have data: "?data = part_bytes content ?ps a"
        using np(1) by (simp add: part_bytes_def)
      show ?thesis
      proof (cases "upload_part s3 a ?data")
        case (Inl e)
        note upload_loop_fail[of stop a u l content s3 e "[a + 1..b]", OF ns ne Inl]
        with "1.prems"(4) ab have "sent_parts u' = sent_parts u @ [(a, ?data)]"
          by auto
        then have "sent_parts u' = sent_parts u @ map (\<lambda>n. (n, part_bytes content ?ps n)) [a..a]"
          using data by simp
        then show ?thesis by blast
      next
        case (Inr p)
        obtain etag len where p: "upload_part s3 a ?data = Inr (etag, len)"
          using Inr by (cases p) simp
        define l1 where "l1 = \<lparr>pos = pos l + length ?data,
             info = (info l)\<lparr>current_part_number := a + 1,
                      uploaded_bytes := l_uploaded_bytes l + int (length ?data),
                      parts := parts (info l) @ [\<lparr>PartNumber = a, ETag = etag\<rparr>]\<rparr>,
             l_uploaded_bytes = l_uploaded_bytes l + int (length ?data), curr_part_num = a\<rparr>"
        define u1 where "u1 = u\<lparr>network_usage := increase_download_bytes len
                 (increase_upload_bytes (l_uploaded_bytes l + int (length ?data)) (network_usage u)),
               info_file := Some (info l1),
               sent_parts := sent_parts u @ [(a, ?data)]\<rparr>"
        have rec: "upload_loop s3 stop content [a + 1..b] l1 u1 = (r, l', u')"
          using "1.prems"(4) ab
            upload_loop_ok[of stop a u l content s3 etag len _ _ _ "[a + 1..b]", OF ns ne p refl refl refl]
          by (simp add: l1_def u1_def)
        have ps1: "part_size_bytes u1 = ?ps" by (simp add: u1_def)
        have pos1: "pos l1 = nat ((a + 1 - 1) * part_size_bytes u1) \<or> length content \<le> pos l1"
          using np(2) by (simp add: l1_def ps1)
        from "1.IH"[OF True _ _ pos1 rec] "1.prems"(1,2) ps1
        obtain k where k: "sent_parts u' =
             sent_parts u1 @ map (\<lambda>n. (n, part_bytes content ?ps n)) [a + 1..k]"
          by auto
        show ?thesis
        proof (cases "a \<le> k")
          case True
          then have "[a..k] = a # [a + 1..k]" by (simp add: upto_rec1)
          with k data have "sent_parts u' = sent_parts u @ map (\<lambda>n. (n, part_bytes content ?ps n)) [a..k]"
            by (simp add: u1_def)
          then show ?thesis by blast
        next
          case False
          then have "[a + 1..k] = []" by simp
          with k data have "sent_parts u' = sent_parts u @ map (\<lambda>n. (n, part_bytes content ?ps n)) [a..a]"
            by (simp add: u1_def)
          then show ?thesis by blast
        qed
      qed
    qed
  qed
qed



lemma upload_loop_info:
  assumes "upload_loop s3 stop content ns l u = (r, l', u')" and "info_file u = Some (info l)"
  shows "info_file u' = Some (info l')
         \<and> (\<exists>new. parts (info l') = parts (info l) @ new \<and> set (map PartNumber new) \<subseteq> set ns)"
  using assms
proof (induction ns arbitrary: l u)
  case Nil
  then show ?case by simp
next
  case (Cons n ns)
  let ?data = "take (nat (part_size_bytes u)) (drop (pos l) content)"
  show ?case
  proof (cases "stop n \<or> ?data = []")
    case True
    have "upload_loop s3 stop content (n # ns) l u = (None, l\<lparr>curr_part_num := n\<rparr>, u)"
      using True by (rule upload_loop_stop)
    with Cons.prems show ?thesis by auto
  next
    case False
    then have ns: "\<not> stop n" and ne: "?data \<noteq> []" by simp_all
    show ?thesis
    proof (cases "upload_part s3 n ?data")
      case (Inl e)
      note upload_loop_fail[of stop n u l content s3 e ns, OF ns ne Inl]
      with Cons.prems show ?thesis by auto
    next
      case (Inr p)
      obtain etag len where p: "upload_part s3 n ?data = Inr (etag, len)"
        using Inr by (cases p) simp
      define i1 where "i1 = (info l)\<lparr>current_part_number := n + 1,
                      uploaded_bytes := l_uploaded_bytes l + int (length ?data),
                      parts := parts (info l) @ [\<lparr>PartNumber = n, ETag = etag\<rparr>]\<rparr>"
      define l1 where "l1 = \<lparr>pos = pos l + length ?data, info = i1,
             l_uploaded_bytes = l_uploaded_bytes l + int (length ?data), curr_part_num = n\<rparr>"
      define u1 where "u1 = u\<lparr>network_usage := increase_download_bytes len
                 (increase_upload_bytes (l_uploaded_bytes l + int (length ?data)) (network_usage u)),
               info_file := Some i1,
               sent_parts := sent_parts u @ [(n, ?data)]\<rparr>"
      have rec: "upload_loop s3 stop content ns l1 u1 = (r, l', u')"
        using Cons.prems(1)
          upload_loop_ok[of stop n u l content s3 etag len _ _ _ ns, OF ns ne p refl refl refl]
        by (simp add: l1_def u1_def i1_def)
      have inv: "info_file u1 = Some (info l1)" by (simp add: u1_def l1_def)
      from Cons.IH[OF rec inv] obtain new where
        new: "info_file u' = Some (info l')" "parts (info l') = parts (info l1) @ new"
             "set (map PartNumber new) \<subseteq> set ns"
        by blast
      have "parts (info l') = parts (info l) @ (\<lparr>PartNumber = n, ETag = etag\<rparr> # new)"
        using new(2) by (simp add: l1_def i1_def)
      moreover have "set (map PartNumber (\<lparr>PartNumber = n, ETag = etag\<rparr> # new)) \<subseteq> set (n # ns)"
        using new(3) by auto
      ultimately show ?thesis using new(1) by blast
    qed
  qed
qed

lemma complete_frame:
  "complete s3 ps u = (r, u') \<Longrightarrow> sent_parts u' = sent_parts u \<and> info_file u' = info_file u"
  by (auto simp: complete_def split: sum.splits)

lemma upload_resumes_aux:
  assumes man: "info_file u = Some i" and f: "file_content u = Some content"
      and ps: "PART_MINIMUM \<le> part_size_bytes u" and st: "1 \<le> current_part_number i"
  shows "\<exists>k new i'.
           sent_parts (snd (upload s3 stop u)) =
             sent_parts u @ map (\<lambda>n. (n, part_bytes content (part_size_bytes u) n))
                              [current_part_number i..k]
           \<and> info_file (snd (upload s3 stop u)) = Some i'
           \<and> parts i' = parts i @ new
           \<and> (\<forall>p \<in> set new. current_part_number i \<le> PartNumber p)"
proof -
  let ?a = "current_part_number i"
  let ?tp = "(total_bytes i + part_size_bytes u - 1) div part_size_bytes u"
  let ?l0 = "\<lparr>pos = (if ?a > 1 then nat ((?a - 1) * part_size_bytes u) else 0), info = i,
              l_uploaded_bytes = uploaded_bytes i, curr_part_num = 1\<rparr>"
  obtain r l' u' where loop: "upload_loop s3 stop content [?a..?tp] ?l0 u = (r, l', u')"
    by (cases "upload_loop s3 stop content [?a..?tp] ?l0 u") blast
  have pos: "0 < part_size_bytes u" using ps by (simp add: PART_MINIMUM_def)
  have p0: "pos ?l0 = nat ((?a - 1) * part_size_bytes u) \<or> length content \<le> pos ?l0"
    using st by (cases "?a = 1") auto
  from upload_loop_sent[OF pos st p0 loop] obtain k where
    k: "sent_parts u' = sent_parts u @ map (\<lambda>n. (n, part_bytes content (part_size_bytes u) n)) [?a..k]"
    by blast
  have inv: "info_file u = Some (info ?l0)" using man by simp
  from upload_loop_info[OF loop inv] obtain new where
    new: "info_file u' = Some (info l')" "parts (info l') = parts i @ new"
         "set (map PartNumber new) \<subseteq> set [?a..?tp]"
    by auto
  have ge: "\<forall>p \<in> set new. ?a \<le> PartNumber p"
    using new(3) by auto
  obtain r2 u2 where up: "upload s3 stop u = (r2, u2)" by (cases "upload s3 stop u") blast
  have "sent_parts u2 = sent_parts u' \<and> info_file u2 = info_file u'"
    using up loop man f complete_frame[of s3 "parts (info l')" u']
    by (auto simp: upload_def Let_def split: option.splits if_splits prod.splits)
  with k new ge up show ?thesis by auto
qed



lemma S5_first_run:
  assumes "length content = 15000000"
  shows "upload (s3_with etag {3}) (\<lambda>n. False) (new_uploader content 6000000) =
      (Some ConnectionError,
       \<lparr>file_path = ''/data/a.bag'', file_content = Some content,
          part_size_bytes = 6000000,
          info_file =
            Some \<lparr>multipart_id = ''upload-1'', current_part_number = 3,
                file_f = ''/data/a.bag'', total_bytes = 15000000,
                uploaded_bytes = 12000000, part_size = 6000000,
                parts = [\<lparr>PartNumber = 1, ETag = etag 1\<rparr>, \<lparr>PartNumber = 2, ETag = etag 2\<rparr>]\<rparr>,
          network_usage = \<lparr>download_bytes = 0, upload_bytes = 18000000\<rparr>,
          sent_parts =
            [(1, take 6000000 content),
             (2, take 6000000 (drop 6000000 content)),
             (3, drop 12000000 content)],
          completed = []\<rparr>)"
proof -
  from assms have "content \<noteq> []" by auto
  with assms show ?thesis
    by (simp add: upload_def new_uploader_def create_info_def s3_with_def Let_def upto_rec1
       increase_upload_bytes_def increase_download_bytes_def complete_def reraise_def)
qed

lemma S5_second_run:
  assumes "length content = 15000000"
  shows "upload (s3_with etag' {}) (\<lambda>n. False)
       \<lparr>file_path = ''/data/a.bag'', file_content = Some content,
          part_size_bytes = 6000000,
          info_file =
            Some \<lparr>multipart_id = ''upload-1'', current_part_number = 3,
                file_f = ''/data/a.bag'', total_bytes = 15000000,
                uploaded_bytes = 12000000, part_size = 6000000,
                parts = [\<lparr>PartNumber = 1, ETag = etag 1\<rparr>, \<lparr>PartNumber = 2, ETag = etag 2\<rparr>]\<rparr>,
          network_usage = nu,
          sent_parts = sp,
          completed = []\<rparr> =
      (None,
       \<lparr>file_path = ''/data/a.bag'', file_content = Some content,
          part_size_bytes = 6000000,
          info_file =
            Some \<lparr>multipart_id = ''upload-1'', current_part_number = 4,
                file_f = ''/data/a.bag'', total_bytes = 15000000,
                uploaded_bytes = 15000000, part_size = 6000000,
                parts = [\<lparr>PartNumber = 1, ETag = etag 1\<rparr>, \<lparr>PartNumber = 2, ETag = etag 2\<rparr>,
                         \<lparr>PartNumber = 3, ETag = etag' 3\<rparr>]\<rparr>,
          network_usage = nu\<lparr>upload_bytes := upload_bytes nu + 15000000\<rparr>,
          sent_parts = sp @ [(3, drop 12000000 content)],
          completed = [[\<lparr>PartNumber = 1, ETag = etag 1\<rparr>, \<lparr>PartNumber = 2, ETag = etag 2\<rparr>,
                         \<lparr>PartNumber = 3, ETag = etag' 3\<rparr>]]\<rparr>)"
  using assms
  by (simp add: upload_def s3_with_def Let_def upto_rec1
       increase_upload_bytes_def increase_download_bytes_def complete_def reraise_def)

text \<open>
  C7: an \<open>upload()\<close> that finds a manifest resumes from its \<open>current_part_number\<close>.
  For every object store and every stop request, the \<open>upload_part\<close> calls it makes are
  for the part numbers \<open>current_part_number, current_part_number + 1, ...\<close> in order,
  each with the bytes at offset \<open>(n - 1) * part_size\<close> of the file, so no part below
  \<open>current_part_number\<close> is uploaded again; the manifest keeps its parts and only
  appends parts numbered from \<open>current_part_number\<close> on. In scenario S-5 (15 000 000
  bytes, parts of 6 000 000, the connection lost at part 3), the first run raises
  \<open>ConnectionError\<close> and leaves a manifest at part 3 with parts 1, 2 and 12 000 000
  bytes; the restarted upload sends part 3 only, completes with the parts 1, 2, 3 in
  ascending order, and the manifest holds \<open>uploaded_bytes = 15 000 000\<close>.
\<close>

theorem upload_resumes:
  "(info_file u = Some i \<and> file_content u = Some content
      \<and> PART_MINIMUM \<le> part_size_bytes u \<and> 1 \<le> current_part_number i \<longrightarrow>
      (\<exists>k new i'.
           sent_parts (snd (upload client stop u)) =
             sent_parts u @ map (\<lambda>n. (n, part_bytes content (part_size_bytes u) n))
                              [current_part_number i..k]
           \<and> info_file (snd (upload client stop u)) = Some i'
           \<and> parts i' = parts i @ new
           \<and> (\<forall>p \<in> set new. current_part_number i \<le> PartNumber p)))
   \<and> (length bigfile = 15000000 \<longrightarrow>
        fst (upload (s3_with etag {3}) (\<lambda>n. False) (new_uploader bigfile 6000000))
          = Some ConnectionError
        \<and> map_option (\<lambda>m. (current_part_number m, uploaded_bytes m, map PartNumber (parts m)))
            (info_file (snd (upload (s3_with etag {3}) (\<lambda>n. False) (new_uploader bigfile 6000000))))
          = Some (3, 12000000, [1, 2])
        \<and> fst (upload (s3_with etag' {}) (\<lambda>n. False)
                 (snd (upload (s3_with etag {3}) (\<lambda>n. False) (new_uploader bigfile 6000000))))
          = None
        \<and> map_option (\<lambda>m. (uploaded_bytes m, map PartNumber (parts m)))
            (info_file (snd (upload (s3_with etag' {}) (\<lambda>n. False)
                 (snd (upload (s3_with etag {3}) (\<lambda>n. False) (new_uploader bigfile 6000000))))))
          = Some (15000000, [1, 2, 3])
        \<and> sent_parts (snd (upload (s3_with etag' {}) (\<lambda>n. False)
                 (snd (upload (s3_with etag {3}) (\<lambda>n. False) (new_uploader bigfile 6000000)))))
          = sent_parts (snd (upload (s3_with etag {3}) (\<lambda>n. False) (new_uploader bigfile 6000000)))
            @ [(3, part_bytes bigfile 6000000 3)]
        \<and> map (map PartNumber) (completed (snd (upload (s3_with etag' {}) (\<lambda>n. False)
                 (snd (upload (s3_with etag {3}) (\<lambda>n. False) (new_uploader bigfile 6000000))))))
          = [[1, 2, 3]])"
proof (intro conjI impI)
  assume "info_file u = Some i \<and> file_content u = Some content
      \<and> PART_MINIMUM \<le> part_size_bytes u \<and> 1 \<le> current_part_number i"
  then show "\<exists>k new i'.
           sent_parts (snd (upload client stop u)) =
             sent_parts u @ map (\<lambda>n. (n, part_bytes content (part_size_bytes u) n))
                              [current_part_number i..k]
           \<and> info_file (snd (upload client stop u)) = Some i'
           \<and> parts i' = parts i @ new
           \<and> (\<forall>p \<in> set new. current_part_number i \<le> PartNumber p)"
    using upload_resumes_aux[of u i content client stop] by blast
qed (simp_all add: S5_first_run S5_second_run part_bytes_def)

theorem upload_resumes_witness:
  "(\<exists>k. sent_parts (snd (upload (s3_with (\<lambda>n. ''etag'') {}) (\<lambda>n. False)
         (snd (upload (s3_with (\<lambda>n. ''etag'') {3}) (\<lambda>n. False)
                (new_uploader (replicate 15000000 0) 6000000))))) =
        sent_parts (snd (upload (s3_with (\<lambda>n. ''etag'') {3}) (\<lambda>n. False)
                (new_uploader (replicate 15000000 0) 6000000)))
        @ map (\<lambda>n. (n, part_bytes (replicate 15000000 0) 6000000 n)) [3..k])
   \<and> map_option (\<lambda>m. (uploaded_bytes m, map PartNumber (parts m)))
        (info_file (snd (upload (s3_with (\<lambda>n. ''etag'') {}) (\<lambda>n. False)
           (snd (upload (s3_with (\<lambda>n. ''etag'') {3}) (\<lambda>n. False)
                  (new_uploader (replicate 15000000 0) 6000000))))))
      = Some (15000000, [1, 2, 3])"
proof -
  let ?c = "replicate 15000000 (0 :: byte)"
  let ?u1 = "snd (upload (s3_with (\<lambda>n. ''etag'') {3}) (\<lambda>n. False) (new_uploader ?c 6000000))"
  let ?i = "\<lparr>multipart_id = ''upload-1'', current_part_number = 3,
                file_f = ''/data/a.bag'', total_bytes = 15000000,
                uploaded_bytes = 12000000, part_size = 6000000,
                parts = [\<lparr>PartNumber = 1, ETag = ''etag''\<rparr>, \<lparr>PartNumber = 2, ETag = ''etag''\<rparr>]\<rparr>"
  have len: "length ?c = 15000000" by simp
  note first = S5_first_run[OF len, of "\<lambda>n. ''etag''"]
  have h: "info_file ?u1 = Some ?i \<and> file_content ?u1 = Some ?c
      \<and> PART_MINIMUM \<le> part_size_bytes ?u1 \<and> 1 \<le> current_part_number ?i"
    unfolding first by (simp add: PART_MINIMUM_def)
  have ps: "part_size_bytes ?u1 = 6000000" and cp: "current_part_number ?i = 3"
    unfolding first by simp_all
  note inst = upload_resumes[where u = ?u1 and content = ?c and client = "s3_with (\<lambda>n. ''etag'') {}"
      and stop = "\<lambda>n. False" and bigfile = ?c and etag = "\<lambda>n. ''etag''" and etag' = "\<lambda>n. ''etag''"
      and i = ?i]
  have A: "\<exists>k. sent_parts (snd (upload (s3_with (\<lambda>n. ''etag'') {}) (\<lambda>n. False) ?u1)) =
        sent_parts ?u1 @ map (\<lambda>n. (n, part_bytes ?c (part_size_bytes ?u1) n)) [current_part_number ?i..k]"
    using inst h by blast
  have B: "map_option (\<lambda>m. (uploaded_bytes m, map PartNumber (parts m)))
        (info_file (snd (upload (s3_with (\<lambda>n. ''etag'') {}) (\<lambda>n. False) ?u1)))
      = Some (15000000, [1, 2, 3])"
    using inst len by blast
  from A have A': "\<exists>k. sent_parts (snd (upload (s3_with (\<lambda>n. ''etag'') {}) (\<lambda>n. False) ?u1)) =
        sent_parts ?u1 @ map (\<lambda>n. (n, part_bytes ?c 6000000 n)) [3..k]"
    unfolding ps cp .
  from A' B show ?thesis by (rule conjI)
qed

text \<open>
  C4: line 163 of \<open>upload\<close> feeds the meter with \<open>uploaded_bytes\<close>, the running total,
  where the chunk's length was meant. A new upload of a file of 7 000 000 bytes sends two
  parts of 6 000 000 and 1 000 000 bytes and adds 6 000 000 + 7 000 000 = 13 000 000 to
  \<open>upload_bytes\<close> (the object store here answers with empty responses and the completing
  request counts nothing).
\<close>

theorem meter_counts_running_total:
  "upload_bytes (network_usage (snd (upload (s3_with etag {}) (\<lambda>n. False)
       (new_uploader (replicate 7000000 0) 6000000)))) = 13000000
   \<and> map (\<lambda>(n, d). int (length d)) (sent_parts (snd (upload (s3_with etag {}) (\<lambda>n. False)
       (new_uploader (replicate 7000000 0) 6000000)))) = [6000000, 1000000]"
  by (simp add: upload_def new_uploader_def create_info_def s3_with_def Let_def upto_rec1
       increase_upload_bytes_def increase_download_bytes_def complete_def min_def)

section \<open>Properties of the log timestamp extraction\<close>


lemma S1_hint:
  "get_timestamp_hint_from_file S1_file =
     Inr (Some \<lparr>year = 2024, month = 1, day = 15, hour = 12, minute = 0, second = 0, microsecond = 0\<rparr>)"
  by code_simp

lemma S1_chunk: "read_chunk S1_file 0 = lf_text S1_file"
  by (simp add: read_chunk_def S1_file_def CHUNK_SIZE_def BUFFER_SIZE_def)

lemma S1_first_stamp:
  "get_timestamp_from_line (lf_text S1_file)
     (Some \<lparr>year = 2024, month = 1, day = 15, hour = 12, minute = 0, second = 0, microsecond = 0\<rparr>) now
   = Inr (Some \<lparr>year = 2024, month = 1, day = 15, hour = 12, minute = 0, second = 0, microsecond = 123000\<rparr>)"
  by code_simp

lemma S1_first_seconds:
  "timestamp_int \<lparr>year = 2024, month = 1, day = 15, hour = 12, minute = 0, second = 0, microsecond = 123000\<rparr>
     = 1705291200"
  by code_simp

lemma S1_lines:
  "rev (splitlines (lf_text S1_file)) =
     [''2024-01-15 12:05:42.000 INFO done'', ''2024-01-15 12:00:00,123 INFO start'']"
  by code_simp

lemma S1_last_stamp:
  "get_timestamp_from_line ''2024-01-15 12:05:42.000 INFO done''
     (Some \<lparr>year = 2024, month = 1, day = 15, hour = 12, minute = 0, second = 0, microsecond = 0\<rparr>) now
   = Inr (Some \<lparr>year = 2024, month = 1, day = 15, hour = 12, minute = 5, second = 42, microsecond = 0\<rparr>)"
  by code_simp

lemma S1_last_seconds:
  "timestamp_int \<lparr>year = 2024, month = 1, day = 15, hour = 12, minute = 5, second = 42, microsecond = 0\<rparr>
     = 1705291542"
  by code_simp

lemma S1_size: "lf_size S1_file = 68"
  by (simp add: S1_file_def)

lemma S1_start: "get_start_timestamp S1_file now = Inr (Some 1705291200)"
  by (simp add: get_start_timestamp_def S1_hint ATTEMPT_LIMIT_def upt_rec S1_size S1_chunk
        S1_first_stamp S1_first_seconds)

lemma S1_end: "get_end_timestamp S1_file now = Inr (Some 1705291542)"
  by (simp add: get_end_timestamp_def S1_hint ATTEMPT_LIMIT_def upt_rec S1_size S1_chunk
        CHUNK_SIZE_def BUFFER_SIZE_def S1_lines S1_last_stamp S1_last_seconds)

text \<open>\<open>splitlines\<close> up to the first line break, and on a text whose last line is known.\<close>

lemma splitlines_Nil: "splitlines [] = []"
  by (simp add: splitlines.simps)

lemma dropWhile_break_free:
  "\<forall>c \<in> set l. \<not> is_linebreak c \<Longrightarrow> is_linebreak c \<Longrightarrow>
     dropWhile (\<lambda>c. \<not> is_linebreak c) (l @ c # r) = c # r
     \<and> takeWhile (\<lambda>c. \<not> is_linebreak c) (l @ c # r) = l"
  by (induction l) auto

lemma splitlines_step:
  assumes "\<forall>c \<in> set l. \<not> is_linebreak c" and "is_linebreak c"
  shows "splitlines (l @ c # r) =
           l # splitlines (if c = CHR 0x0D \<and> r \<noteq> [] \<and> hd r = CHR 0x0A then tl r else r)"
  using dropWhile_break_free[OF assms, of r]
  by (subst splitlines.simps) simp

lemma splitlines_single:
  assumes "B \<noteq> []" and "\<forall>c \<in> set B. \<not> is_linebreak c"
  shows "splitlines B = [B]"
proof -
  have d: "dropWhile (\<lambda>c. \<not> is_linebreak c) B = []" using assms(2) by simp
  show ?thesis by (subst splitlines.simps) (simp only: d assms(1) if_False list.case)
qed

lemma LF_break: "is_linebreak (CHR 0x0A)"
  by (simp add: is_linebreak_def)

lemma splitlines_single_nl:
  assumes "\<forall>c \<in> set B. \<not> is_linebreak c"
  shows "splitlines (B @ [CHR 0x0A]) = [B]"
  using splitlines_step[OF assms LF_break, of "[]"] by (simp add: splitlines_Nil)

lemma split_at_break:
  assumes "\<exists>c \<in> set ys. is_linebreak c"
  shows "\<exists>l c r. ys = l @ c # r \<and> (\<forall>x \<in> set l. \<not> is_linebreak x) \<and> is_linebreak c"
  using assms
proof (induction ys)
  case Nil
  then show ?case by simp
next
  case (Cons y ys)
  show ?case
  proof (cases "is_linebreak y")
    case True
    then have "y # ys = [] @ y # ys \<and> (\<forall>x \<in> set []. \<not> is_linebreak x) \<and> is_linebreak y" by simp
    then show ?thesis by blast
  next
    case False
    with Cons.prems have "\<exists>c \<in> set ys. is_linebreak c" by simp
    from Cons.IH[OF this] obtain l c r where
      "ys = l @ c # r" "\<forall>x \<in> set l. \<not> is_linebreak x" "is_linebreak c" by blast
    with False have "y # ys = (y # l) @ c # r \<and> (\<forall>x \<in> set (y # l). \<not> is_linebreak x) \<and> is_linebreak c"
      by simp
    then show ?thesis by blast
  qed
qed

lemma splitlines_last_line:
  assumes B: "B \<noteq> []" "\<forall>c \<in> set B. \<not> is_linebreak c" and t: "t = [] \<or> t = [CHR 0x0A]"
  shows "splitlines (ys @ CHR 0x0A # B @ t) = splitlines (ys @ [CHR 0x0A]) @ [B]"
proof (induction ys rule: length_induct)
  case (1 ys)
  have Bt: "splitlines (B @ t) = [B]"
    using t splitlines_single[OF B] splitlines_single_nl[OF B(2)] by auto
  show ?case
  proof (cases "\<exists>c \<in> set ys. is_linebreak c")
    case False
    then have bf: "\<forall>c \<in> set ys. \<not> is_linebreak c" by blast
    have "splitlines (ys @ CHR 0x0A # B @ t) = ys # splitlines (B @ t)"
      using splitlines_step[OF bf LF_break, of "B @ t"] by simp
    moreover have "splitlines (ys @ [CHR 0x0A]) = [ys]"
      using splitlines_step[OF bf LF_break, of "[]"] by (simp add: splitlines_Nil)
    ultimately show ?thesis using Bt by simp
  next
    case True
    from split_at_break[OF True] obtain l c r where
      ys: "ys = l @ c # r" and l: "\<forall>x \<in> set l. \<not> is_linebreak x" and c: "is_linebreak c"
      by blast
    have left: "splitlines (ys @ CHR 0x0A # B @ t) =
        l # splitlines (if c = CHR 0x0D \<and> hd (r @ [CHR 0x0A]) = CHR 0x0A
                        then tl (r @ CHR 0x0A # B @ t) else r @ CHR 0x0A # B @ t)"
      using splitlines_step[OF l c, of "r @ CHR 0x0A # B @ t"] ys by (cases r) simp_all
    have right: "splitlines (ys @ [CHR 0x0A]) =
        l # splitlines (if c = CHR 0x0D \<and> hd (r @ [CHR 0x0A]) = CHR 0x0A
                        then tl (r @ [CHR 0x0A]) else r @ [CHR 0x0A])"
      using splitlines_step[OF l c, of "r @ [CHR 0x0A]"] ys by simp
    show ?thesis
    proof (cases "c = CHR 0x0D \<and> hd (r @ [CHR 0x0A]) = CHR 0x0A")
      case False
      have "length r < length ys" using ys by simp
      with 1 have "splitlines (r @ CHR 0x0A # B @ t) = splitlines (r @ [CHR 0x0A]) @ [B]" by blast
      with left right False show ?thesis by simp
    next
      case cr: True
      show ?thesis
      proof (cases r)
        case Nil
        with left right cr Bt show ?thesis by (simp add: splitlines_Nil)
      next
        case (Cons x r2)
        have "length r2 < length ys" using ys Cons by simp
        with 1 have "splitlines (r2 @ CHR 0x0A # B @ t) = splitlines (r2 @ [CHR 0x0A]) @ [B]" by blast
        with left right cr Cons show ?thesis by simp
      qed
    qed
  qed
qed

text \<open>The same extraction on every file with the first and the last line of S-1.\<close>

lemma S1_name_hint: "get_hint_from_text hint_options ''svc_20240115_12.log'' = None"
  by code_simp

lemma S1_line_hint:
  "get_hint_from_text hint_options (S1_first @ [CHR 0x0A]) =
     Some \<lparr>year = 2024, month = 1, day = 15, hour = 12, minute = 0, second = 0, microsecond = 0\<rparr>"
  unfolding S1_first_def by code_simp

lemma S1_log_hint:
  "get_timestamp_hint_from_file (S1_log between nl) =
     Inr (Some \<lparr>year = 2024, month = 1, day = 15, hour = 12, minute = 0, second = 0, microsecond = 0\<rparr>)"
  by (simp add: get_timestamp_hint_from_file_def S1_log_def S1_name_hint S1_line_hint)

lemma first_stamp_any_tail:
  "get_timestamp_from_line (S1_first @ CHR 0x0A # T)
     (Some \<lparr>year = 2024, month = 1, day = 15, hour = 12, minute = 0, second = 0, microsecond = 0\<rparr>) now
   = Inr (Some \<lparr>year = 2024, month = 1, day = 15, hour = 12, minute = 0, second = 0, microsecond = 123000\<rparr>)"
  unfolding S1_first_def by code_simp

lemma S1_first_length: "length S1_first = 34"
  by (simp add: S1_first_def)

lemma S1_last_length: "length S1_last = 33"
  by (simp add: S1_last_def)

lemma S1_log_size: "0 < lf_size (S1_log between nl)"
  by (simp add: S1_log_def S1_text_def S1_first_length)

lemma S1_log_first_chunk: "\<exists>T. read_chunk (S1_log between nl) 0 = S1_first @ CHR 0x0A # T"
  by (simp add: read_chunk_def S1_log_def S1_text_def S1_first_length CHUNK_SIZE_def BUFFER_SIZE_def)

lemma S1_log_start: "get_start_timestamp (S1_log between nl) now = Inr (Some 1705291200)"
proof -
  obtain T where "read_chunk (S1_log between nl) 0 = S1_first @ CHR 0x0A # T"
    using S1_log_first_chunk by blast
  then show ?thesis
    using S1_log_size[of between nl]
    by (simp add: get_start_timestamp_def S1_log_hint ATTEMPT_LIMIT_def upt_rec
          first_stamp_any_tail S1_first_seconds)
qed

lemma S1_last_break_free: "S1_last \<noteq> [] \<and> (\<forall>c \<in> set S1_last. \<not> is_linebreak c)"
  by (simp add: S1_last_def is_linebreak_def)

lemma S1_text_shape:
  "\<exists>P. S1_text between nl = P @ CHR 0x0A # S1_last @ (if nl then [CHR 0x0A] else [])"
proof (cases between rule: rev_cases)
  case Nil
  then show ?thesis by (simp add: S1_text_def)
next
  case (snoc ls l)
  then have "S1_text between nl =
      (S1_first @ [CHR 0x0A] @ concat (map (\<lambda>l. l @ [CHR 0x0A]) ls) @ l)
        @ CHR 0x0A # S1_last @ (if nl then [CHR 0x0A] else [])"
    by (simp add: S1_text_def)
  then show ?thesis by blast
qed

lemma S1_log_last_chunk:
  "\<exists>ys. read_chunk (S1_log between nl)
           (max 0 (lf_size (S1_log between nl) - int CHUNK_SIZE - int BUFFER_SIZE))
         = ys @ CHR 0x0A # S1_last @ (if nl then [CHR 0x0A] else [])"
proof -
  obtain P where P: "S1_text between nl = P @ CHR 0x0A # S1_last @ (if nl then [CHR 0x0A] else [])"
    using S1_text_shape by blast
  define k where "k = nat (max 0 (int (length (S1_text between nl)) - 16896))"
  have k: "k \<le> length P" "length (S1_text between nl) - k \<le> 16896"
    by (auto simp: k_def P S1_last_length)
  have "read_chunk (S1_log between nl)
           (max 0 (lf_size (S1_log between nl) - int CHUNK_SIZE - int BUFFER_SIZE))
        = take 16896 (drop k (S1_text between nl))"
    by (simp add: read_chunk_def S1_log_def CHUNK_SIZE_def BUFFER_SIZE_def k_def)
  also have "\<dots> = drop k (S1_text between nl)"
    using k(2) by simp
  also have "\<dots> = drop k P @ CHR 0x0A # S1_last @ (if nl then [CHR 0x0A] else [])"
    using k(1) by (simp add: P)
  finally show ?thesis by blast
qed

lemma S1_log_end: "get_end_timestamp (S1_log between nl) now = Inr (Some 1705291542)"
proof -
  obtain ys where c: "read_chunk (S1_log between nl)
           (max 0 (lf_size (S1_log between nl) - int CHUNK_SIZE - int BUFFER_SIZE))
         = ys @ CHR 0x0A # S1_last @ (if nl then [CHR 0x0A] else [])"
    using S1_log_last_chunk by blast
  have "splitlines (ys @ CHR 0x0A # S1_last @ (if nl then [CHR 0x0A] else []))
          = splitlines (ys @ [CHR 0x0A]) @ [S1_last]"
    using S1_last_break_free by (intro splitlines_last_line) simp_all
  then have "rev (splitlines (ys @ CHR 0x0A # S1_last @ (if nl then [CHR 0x0A] else [])))
          = S1_last # rev (splitlines (ys @ [CHR 0x0A]))"
    by simp
  then show ?thesis
    using S1_log_size[of between nl] c S1_last_stamp[of now]
    by (simp add: get_end_timestamp_def S1_log_hint ATTEMPT_LIMIT_def upt_rec
          S1_last_def S1_last_seconds)
qed

lemma S1_log_instance: "S1_log [] False = S1_file"
  by (simp add: S1_log_def S1_text_def S1_file_def S1_first_def S1_last_def)


text \<open>
  C3, as stated: the extraction yields \<open>start_time = 1705305600\<close> and
  \<open>end_time = 1705305942\<close> for the file of S-1. It does not: those numbers are
  08:00:00 and 08:05:42 UTC, neither reading of 12:00:00.
\<close>

theorem S1_extraction_counterexample:
  "\<not> (get_start_timestamp S1_file some_now = Inr (Some 1705305600)
      \<and> get_end_timestamp S1_file some_now = Inr (Some 1705305942))"
  by (simp add: S1_start)

text \<open>
  C3, amended: for every file named \<open>svc_20240115_12.log\<close> whose first line is
  \<open>2024-01-15 12:00:00,123 INFO start\<close> and whose last line is
  \<open>2024-01-15 12:05:42.000 INFO done\<close> (any lines between, a final line feed or none),
  whatever the clock, the extraction yields \<open>start_time = 1705291200\<close> and
  \<open>end_time = 1705291542\<close>, that is 2024-01-15 12:00:00 and 12:05:42 at UTC+08:00
  (04:00:00 and 04:05:42 UTC), and the log handler stores them with the file's size as
  the index entry. The file name gives no hint (it has no run of ten digits), the hint
  comes from the first line; the first line matches the first schema but fails its
  format (the comma) and is parsed by the second, the last line is parsed by the first.
\<close>

theorem S1_extraction:
  "get_start_timestamp (S1_log between final_newline) now = Inr (Some 1705291200)
   \<and> get_end_timestamp (S1_log between final_newline) now = Inr (Some 1705291542)
   \<and> update_path_state LogHandler (env\<lparr>log_of := \<lambda>p. S1_log between final_newline\<rparr>) p =
         WriteState (timed_state (st_size env p) 1705291200 1705291542)"
  by (simp add: S1_log_start S1_log_end)
section \<open>Properties of the file-state index\<close>


lemma entry_ok_unsupported: "entry_ok (unsupported_state sz)"
  by (simp add: entry_ok_def unsupported_state_def empty_state_def)

lemma entry_ok_timed: "entry_ok (timed_state sz s e)"
  by (simp add: entry_ok_def timed_state_def empty_state_def)

lemma update_path_state_ok:
  "update_path_state hdl env p = WriteState v \<Longrightarrow> entry_ok v"
  by (cases hdl)
     (auto simp: entry_ok_def timed_state_def unsupported_state_def empty_state_def
           split: sum.splits option.splits prod.splits)

lemma index_ok_dict_set:
  "index_ok d \<Longrightarrow> entry_ok v \<Longrightarrow> index_ok (dict_set k v d)"
  by (induction d) (auto simp: index_ok_def)

lemma index_ok_dict_del: "index_ok d \<Longrightarrow> index_ok (dict_del k d)"
  by (induction d) (auto simp: index_ok_def dict_del_def)

lemma index_ok_lookup: "index_ok d \<Longrightarrow> get_file_state d p = Some st \<Longrightarrow> entry_ok st"
  by (induction d) (auto simp: index_ok_def get_file_state_def split: if_splits)

lemma index_ok_update_entry: "index_ok d \<Longrightarrow> index_ok (update_entry env entry hdl d)"
  by (cases "update_path_state hdl env entry")
     (auto simp: update_entry_def index_ok_dict_set entry_ok_unsupported update_path_state_ok
           split: option.splits)

lemma index_ok_handlers:
  "index_ok d \<Longrightarrow> index_ok (foldl (\<lambda>d' hdl. update_entry env entry hdl d') d hs)"
  by (induction hs arbitrary: d) (simp_all add: index_ok_update_entry)

lemma index_ok_entries:
  "index_ok d \<Longrightarrow>
     index_ok (foldl (\<lambda>d entry. foldl (\<lambda>d' hdl. update_entry env entry hdl d') d hs) d es)"
  by (induction es arbitrary: d) (simp_all add: index_ok_handlers)

lemma index_ok_deleted_aux:
  "index_ok d \<Longrightarrow> index_ok (foldl (\<lambda>acc k. if \<not> path_exists env k then dict_del k acc else acc) d ks)"
  by (induction ks arbitrary: d) (simp_all add: index_ok_dict_del)

lemma index_ok_deleted: "index_ok d \<Longrightarrow> index_ok (update_deleted_file_state env d)"
  by (simp add: update_deleted_file_state_def index_ok_deleted_aux)

lemma handler_ok_update_dir: "handler_ok h \<Longrightarrow> handler_ok (update_dir env p h)"
  by (simp add: handler_ok_def update_dir_def save_state_def index_ok_deleted index_ok_entries)

lemma handler_ok_load: "handler_ok h \<Longrightarrow> handler_ok (load_state h)"
  by (auto simp: handler_ok_def load_state_def split: option.splits)

lemma handler_ok_save: "handler_ok h \<Longrightarrow> handler_ok (save_state h)"
  by (simp add: handler_ok_def save_state_def)

lemma index_ok_processed: "index_ok d \<Longrightarrow> index_ok (update_file_state_processed p d)"
proof (cases "get_file_state d p")
  case None
  assume "index_ok d"
  with None show ?thesis by (simp add: update_file_state_processed_def)
next
  case (Some st)
  assume ok: "index_ok d"
  from index_ok_lookup[OF ok Some] have "entry_ok (st\<lparr>fs_processed := Some True\<rparr>)"
    by (simp add: entry_ok_def)
  with ok Some show ?thesis
    by (simp add: update_file_state_processed_def index_ok_dict_set)
qed

lemma handler_ok_static_handlers:
  "handler_ok h \<Longrightarrow> handler_ok (static_handlers env p r hs h)"
proof (induction hs arbitrary: h)
  case Nil
  then show ?case by simp
next
  case (Cons hdl hs)
  have step: "handler_ok (save_state (h\<lparr>state := update_file_state_processed p (state h)\<rparr>))"
    using Cons.prems by (simp add: handler_ok_def save_state_def index_ok_processed)
  show ?case
    using Cons.prems Cons.IH[OF Cons.prems] Cons.IH[OF step] step
    by (auto simp: Let_def split: option.splits)
qed

lemma handler_ok_static: "handler_ok h \<Longrightarrow> handler_ok (static_file_diagnosis env p r h)"
  by (simp add: static_file_diagnosis_def handler_ok_static_handlers)

lemma handler_ok_op: "handler_ok h \<Longrightarrow> handler_ok (apply_index_op op h)"
  by (cases op) (simp_all add: handler_ok_load handler_ok_save handler_ok_update_dir handler_ok_static)

lemma handler_ok_run: "handler_ok h \<Longrightarrow> handler_ok (run_index_ops ops h)"
  unfolding run_index_ops_def
  by (induction ops arbitrary: h) (simp_all add: handler_ok_op)

lemma get_files_defined:
  "index_ok d \<Longrightarrow> \<exists>fs. get_files d dir_path s e gd = Inr fs"
proof (induction d)
  case Nil
  then show ?case by simp
next
  case (Cons a d)
  obtain k st where a: "a = (k, st)" by (cases a)
  from Cons.prems a have ok: "entry_ok st" and rest: "index_ok d"
    by (simp_all add: index_ok_def)
  from Cons.IH[OF rest] obtain fs where fs: "get_files d dir_path s e gd = Inr fs" by blast
  show ?case
    using ok fs a by (auto simp: entry_ok_def flag_def split: option.splits)
qed



lemma update_path_state_shape:
  "update_path_state hdl env p = WriteState v \<Longrightarrow>
     \<exists>sz s e. v = timed_state sz s e \<or> v = (timed_state sz s e)\<lparr>fs_is_dir := Some True\<rparr>
              \<or> v = unsupported_state sz"
  by (cases hdl) (auto split: sum.splits option.splits prod.splits)

lemma map_of_dict_set:
  "map_of (dict_set k v d) k' = (if k' = k then Some v else map_of d k')"
  by (induction d) auto

lemma processed_only:
  "map_option without_processed (get_file_state (update_file_state_processed p d) k)
     = map_option without_processed (get_file_state d k)"
  by (auto simp: update_file_state_processed_def get_file_state_def map_of_dict_set
        without_processed_def split: option.splits)

lemma keys_dict_set: "map_of d k \<noteq> None \<Longrightarrow> map fst (dict_set k v d) = map fst d"
  by (induction d) auto

lemma processed_keys: "map fst (update_file_state_processed p d) = map fst d"
  by (auto simp: update_file_state_processed_def get_file_state_def keys_dict_set
        split: option.splits)

lemma static_handlers_only_processed:
  "map fst (state (static_handlers env p r hs h)) = map fst (state h)
   \<and> map_option without_processed (get_file_state (state (static_handlers env p r hs h)) k)
       = map_option without_processed (get_file_state (state h) k)"
proof (induction hs arbitrary: h)
  case Nil
  then show ?case by simp
next
  case (Cons hdl hs)
  let ?h' = "save_state (h\<lparr>state := update_file_state_processed p (state h)\<rparr>)"
  have s: "state ?h' = update_file_state_processed p (state h)"
    by (simp add: save_state_def)
  show ?case
    using Cons.IH[of h] Cons.IH[of ?h']
    by (auto simp: Let_def s processed_only processed_keys split: option.splits)
qed

lemma pruning_subset_aux:
  "set (foldl (\<lambda>acc k. if \<not> path_exists env k then dict_del k acc else acc) d ks) \<subseteq> set d"
proof (induction ks arbitrary: d)
  case Nil
  then show ?case by simp
next
  case (Cons k ks)
  have "set (dict_del k d) \<subseteq> set d" by (auto simp: dict_del_def)
  with Cons.IH[of "dict_del k d"] Cons.IH[of d] show ?case by auto
qed

lemma pruning_subset: "set (update_deleted_file_state env d) \<subseteq> set d"
  by (simp add: update_deleted_file_state_def pruning_subset_aux)

text \<open>
  C10: every entry of the index is marked unsupported or has both a start and an end
  time. A handler writes \<open>{size, start_time, end_time}\<close> (with \<open>is_dir\<close> for a ROS2
  directory) or \<open>{size, unsupported: true}\<close>, and \<open>update_dir\<close> writes the latter when
  the handler raises; all three shapes satisfy \<open>entry_ok\<close>. \<open>static_file_diagnosis\<close>
  keeps the keys of the index and changes at most the \<open>processed\<close> key of an entry;
  pruning only removes entries. So from a new singleton, or from any state whose memory
  and state file satisfy the invariant, every run of \<open>load_state\<close>, \<open>save_state\<close>,
  \<open>update_dir\<close> and \<open>static_file_diagnosis\<close> keeps the invariant, and \<open>get_files\<close>
  returns a list: no comparison meets a missing time.
\<close>

theorem index_entries_comparable:
  "(update_path_state hdl env p = WriteState v \<longrightarrow>
      (\<exists>sz s e. v = timed_state sz s e \<or> v = (timed_state sz s e)\<lparr>fs_is_dir := Some True\<rparr>
               \<or> v = unsupported_state sz))
   \<and> entry_ok (unsupported_state sz') \<and> entry_ok (timed_state sz' s' e')
   \<and> entry_ok ((timed_state sz' s' e')\<lparr>fs_is_dir := Some True\<rparr>)
   \<and> (map fst (state (static_file_diagnosis env p r h)) = map fst (state h)
      \<and> map_option without_processed (get_file_state (state (static_file_diagnosis env p r h)) k)
          = map_option without_processed (get_file_state (state h) k))
   \<and> set (update_deleted_file_state env d) \<subseteq> set d
   \<and> handler_ok (FileStateHandler_new None)
   \<and> (handler_ok h \<longrightarrow>
        handler_ok (run_index_ops ops h)
        \<and> (\<exists>fs. get_files (state (run_index_ops ops h)) dir_path start_time end_time get_dir = Inr fs))"
proof -
  have run: "handler_ok h \<longrightarrow>
        handler_ok (run_index_ops ops h)
        \<and> (\<exists>fs. get_files (state (run_index_ops ops h)) dir_path start_time end_time get_dir = Inr fs)"
  proof
    assume "handler_ok h"
    then have ok: "handler_ok (run_index_ops ops h)" by (rule handler_ok_run)
    then have "index_ok (state (run_index_ops ops h))" by (simp add: handler_ok_def)
    from get_files_defined[OF this] ok
    show "handler_ok (run_index_ops ops h)
        \<and> (\<exists>fs. get_files (state (run_index_ops ops h)) dir_path start_time end_time get_dir = Inr fs)"
      by blast
  qed
  have new: "handler_ok (FileStateHandler_new None)"
    by (simp add: handler_ok_def FileStateHandler_new_def index_ok_def)
  have e3: "entry_ok ((timed_state sz' s' e')\<lparr>fs_is_dir := Some True\<rparr>)"
    by (simp add: entry_ok_def timed_state_def empty_state_def)
  show ?thesis
    using update_path_state_shape[of hdl env p v] entry_ok_unsupported[of sz']
      entry_ok_timed[of sz' s' e'] e3
      static_handlers_only_processed[of env p r HANDLERS h k]
      pruning_subset[of env d] new run
    unfolding static_file_diagnosis_def by blast
qed

lemma demo_names:
  "path_name ''/logs/svc_20240115_12.log'' = ''svc_20240115_12.log''"
  "path_name ''/logs/run.mcap'' = ''run.mcap''"
  "path_parent ''/logs/svc_20240115_12.log'' = ''/logs''"
  "path_parent ''/logs/run.mcap'' = ''/logs''"
  "path_str ''/logs'' = ''/logs''"
  by code_simp+

lemma demo_state:
  "state (run_index_ops demo_ops (FileStateHandler_new None)) =
     [(''/logs/svc_20240115_12.log'', timed_state 68 1705291200 1705291542),
      (''/logs/run.mcap'', unsupported_state 68)]"
  by (simp add: run_index_ops_def demo_ops_def FileStateHandler_new_def load_state_def
        update_dir_def save_state_def update_entry_def HANDLERS_def demo_env_def demo_names
        endswith_def get_file_state_def S1_start S1_end update_deleted_file_state_def
        static_file_diagnosis_def flag_def unsupported_state_def timed_state_def empty_state_def)

theorem index_entries_comparable_witness:
  "handler_ok (FileStateHandler_new None)
   \<and> handler_ok (run_index_ops demo_ops (FileStateHandler_new None))
   \<and> get_files (state (run_index_ops demo_ops (FileStateHandler_new None)))
        (OnePath ''/logs'') 1705291000 1705292000 False
      = Inr [''/logs/svc_20240115_12.log'']"
proof -
  note t = index_entries_comparable[where h = "FileStateHandler_new None" and ops = demo_ops]
  have a: "handler_ok (FileStateHandler_new None)" using t by blast
  have b: "handler_ok (run_index_ops demo_ops (FileStateHandler_new None))" using t a by blast
  have c: "get_files (state (run_index_ops demo_ops (FileStateHandler_new None)))
        (OnePath ''/logs'') 1705291000 1705292000 False
      = Inr [''/logs/svc_20240115_12.log'']"
    unfolding demo_state
    by (simp add: demo_names flag_def unsupported_state_def timed_state_def empty_state_def)
  from a b c show ?thesis by blast
qed

section \<open>Properties of the collector\<close>







section \<open>Properties of the default mod\<close>



lemma no_update_dirs: "getattr_FileStateHandler ''update_dirs'' = Some AttributeError"
  by (simp add: getattr_FileStateHandler_def FileStateHandler_attributes_def)

text \<open>
  C1: for a pending request (\<open>flag = false\<close>, a cut window that has ended) the
  materialization never happens. \<open>__find_files_and_update_error_json\<close> returns early for
  a request without \<open>cut\<close>, without \<open>flag\<close>, with a true \<open>flag\<close> or with a cut window
  still open; in every other case it raises \<open>AttributeError\<close> at line 143, because
  \<open>FileStateHandler\<close> has a method \<open>update_dir\<close> but none called \<open>update_dirs\<close>, and
  the JSON file stays as it was. The sweep \<open>run\<close> raises the same exception at line 253,
  before it reaches the JSON files.
\<close>

theorem sweep_raises_attribute_error:
  "find_files_and_update_error_json env idx path dirs temp_dir now_ms rand ej =
     (case ej_cut ej of
        None \<Rightarrow> (None, ej)
      | Some ct \<Rightarrow>
          (if ej_flag ej = None \<or> flag (ej_flag ej) \<or> now_ms < cut_end ct * 1000 then (None, ej)
           else (Some AttributeError, ej)))
   \<and> find_files_and_update_error_json working_fs [] ''/state/req.json'' [''/logs''] ''/tmp''
        300000 7 pending_json = (Some AttributeError, pending_json)
   \<and> run_mod working_fs [] \<lparr>mod_enabled = True, base_dirs = Some [''/logs'']\<rparr> ''/tmp'' 300000 7
        [(''/state/req.json'', pending_json)]
       = (Some AttributeError, [(''/state/req.json'', pending_json)])"
  by (auto simp: find_files_and_update_error_json_def no_update_dirs run_mod_def
        handle_upload_files_def pending_json_def flag_def split: option.splits)

end
